theory Spec2Isabelle
  imports Complex_Main
begin

section \<open>Strategy: decision policy (src/lib/strategy.js)\<close>

text \<open>The three signal strings \<open>'BUY'\<close>, \<open>'SELL'\<close>, \<open>'WAIT'\<close>.\<close>

datatype signal = BUY | SELL | WAIT

text \<open>The position direction strings \<open>'long'\<close> and \<open>'short'\<close>; \<open>null\<close> is \<open>None\<close>.\<close>

datatype direction = long | short

text \<open>The object returned by \<open>shouldTrade\<close>; an absent \<open>side\<close> property is \<open>None\<close>.
  Sides are the strings \<open>'buy'\<close> and \<open>'sell'\<close>.\<close>

record trade_decision =
  shouldTrade_flag :: bool
  td_side :: "string option"
  td_reason :: string

definition signal_name :: "signal \<Rightarrow> string" where
  "signal_name s = (case s of BUY \<Rightarrow> ''BUY'' | SELL \<Rightarrow> ''SELL'' | WAIT \<Rightarrow> ''WAIT'')"

definition shouldTrade :: "signal \<Rightarrow> direction option \<Rightarrow> trade_decision" where
  "shouldTrade sig lastPos =
     (if sig = WAIT then
        \<lparr>shouldTrade_flag = False, td_side = None, td_reason = ''No clear signal''\<rparr>
      else if sig = BUY \<and> lastPos = Some long then
        \<lparr>shouldTrade_flag = False, td_side = None, td_reason = ''Already in long position''\<rparr>
      else if sig = SELL \<and> lastPos = Some short then
        \<lparr>shouldTrade_flag = False, td_side = None, td_reason = ''Already in short position''\<rparr>
      else
        \<lparr>shouldTrade_flag = True,
         td_side = Some (if sig = BUY then ''buy'' else ''sell''),
         td_reason = signal_name sig @ '' signal confirmed''\<rparr>)"

section \<open>Double-precision arithmetic\<close>

text \<open>The moving averages and the averaged entry prices are JavaScript numbers, that is
  IEEE 754 doubles. A double is kept as the real number it denotes, and an arithmetic
  operation rounds its exact result to the nearest double, ties to the even mantissa.
  \<open>NaN\<close>, the infinities and overflow are not modelled; a division by zero gives 0 here.\<close>

text \<open>Rounding to the nearest integer, ties to even.\<close>

definition round_even :: "real \<Rightarrow> int" where
  "round_even r =
     (let f = \<lfloor>r\<rfloor>
      in if r - of_int f < 1 / 2 then f
         else if 1 / 2 < r - of_int f then f + 1
         else if even f then f else f + 1)"

text \<open>The binary exponent \<open>e\<close> with \<open>2 powi e \<le> x < 2 powi (e + 1)\<close>, found by stepping from a
  start value; the exponents of doubles lie well within 2200 steps of 0.\<close>

fun binade :: "nat \<Rightarrow> real \<Rightarrow> int \<Rightarrow> int" where
  "binade 0 x e = e"
| "binade (Suc n) x e =
     (if x < 2 powi e then binade n x (e - 1)
      else if 2 powi (e + 1) \<le> x then binade n x (e + 1)
      else e)"

definition exponent :: "real \<Rightarrow> int" where
  "exponent x = binade 2200 \<bar>x\<bar> 0"

text \<open>The nearest double: 53 significant bits, and the fixed spacing of the subnormal
  numbers below \<open>2 powi (- 1022)\<close>.\<close>

definition fl :: "real \<Rightarrow> real" where
  "fl x =
     (if x = 0 then 0
      else let u = 2 powi (max (exponent x) (- 1022) - 52)
           in of_int (round_even (x / u)) * u)"

definition fadd :: "real \<Rightarrow> real \<Rightarrow> real" where
  "fadd a b = fl (a + b)"

definition fsub :: "real \<Rightarrow> real \<Rightarrow> real" where
  "fsub a b = fl (a - b)"

definition fmul :: "real \<Rightarrow> real \<Rightarrow> real" where
  "fmul a b = fl (a * b)"

definition fdiv :: "real \<Rightarrow> real \<Rightarrow> real" where
  "fdiv a b = fl (a / b)"

section \<open>Strategy: signal generation (src/lib/strategy.js)\<close>

text \<open>A template literal is kept as the sequence of its parts: literal or interpolated
  strings, interpolated numbers, and numbers printed with \<open>toFixed(2)\<close>. JavaScript numbers
  that hold prices, sizes and leverage are modelled as reals (no \<open>NaN\<close>); the arithmetic of
  the moving averages and of the averaged entry price is rounded as doubles.
  The two characters of the source's messages outside ASCII are written \<open>~\<close> and \<open>->\<close>.\<close>

datatype piece = Str string | Num real | Fixed2 real

type_synonym template = "piece list"

definition FAST_MA_PERIOD :: nat where
  "FAST_MA_PERIOD = 9"

definition SLOW_MA_PERIOD :: nat where
  "SLOW_MA_PERIOD = 21"

text \<open>Modelled from the spec: \<open>SMA.calculate\<close> belongs to the package \<open>technicalindicators\<close>,
  which is not under src/. It yields "the arithmetic mean of the period most recent values"
  for each window of \<open>period\<close> consecutive prices, oldest window first, and nothing when
  there are fewer than \<open>period\<close> prices. The package computes it in doubles from a running
  sum: its generator starts with the sum 0, the counter 1 and the list \<open>[0]\<close>; below the
  period a price is pushed and added to the sum; from then on each price gives
  \<open>sum = sum - list.shift() + current\<close> and the result \<open>sum / period\<close>.\<close>

fun SMA_gen :: "nat \<Rightarrow> nat \<Rightarrow> real \<Rightarrow> real list \<Rightarrow> real list \<Rightarrow> real list" where
  "SMA_gen period counter sum_v lst [] = []"
| "SMA_gen period counter sum_v lst (current # rest) =
     (if counter < period then
        SMA_gen period (Suc counter) (fadd sum_v current) (lst @ [current]) rest
      else
        (case lst of
           [] \<Rightarrow> []
         | shifted # lst' \<Rightarrow>
             let sum_w = fadd (fsub sum_v shifted) current
             in fdiv sum_w (real period) # SMA_gen period counter sum_w (lst' @ [current]) rest))"

definition calculateSMA :: "real list \<Rightarrow> nat \<Rightarrow> real list" where
  "calculateSMA prices period = SMA_gen period 1 0 [0] prices"

text \<open>Reading \<open>xs[i]\<close>: an index outside the array gives \<open>undefined\<close> (\<open>None\<close>).\<close>

definition js_index :: "'a list \<Rightarrow> int \<Rightarrow> 'a option" where
  "js_index xs i = (if 0 \<le> i \<and> i < int (length xs) then Some (xs ! nat i) else None)"

text \<open>Comparisons with an \<open>undefined\<close> operand are false.\<close>

definition js_le :: "real option \<Rightarrow> real option \<Rightarrow> bool" where
  "js_le a b = (case (a, b) of (Some x, Some y) \<Rightarrow> x \<le> y | _ \<Rightarrow> False)"

definition js_less :: "real option \<Rightarrow> real option \<Rightarrow> bool" where
  "js_less a b = (case (a, b) of (Some x, Some y) \<Rightarrow> x < y | _ \<Rightarrow> False)"

text \<open>\<open>Math.round\<close> rounds half up; \<open>Math.round(x * 100) / 100\<close> keeps two decimals.\<close>

definition js_round :: "real \<Rightarrow> real" where
  "js_round x = real_of_int \<lfloor>x + 1 / 2\<rfloor>"

definition round2 :: "real \<Rightarrow> real" where
  "round2 x = fdiv (js_round (fmul x 100)) 100"

text \<open>The object returned by \<open>analyzeMarket\<close>; \<open>null\<close> and absent properties are \<open>None\<close>.\<close>

record analysis =
  an_signal :: signal
  an_reason :: template
  an_fastMA :: "real option"
  an_slowMA :: "real option"
  fastMAPeriod :: "nat option"
  slowMAPeriod :: "nat option"

text \<open>The text of a reason that names both rounded averages.\<close>

definition ma_reason :: "string \<Rightarrow> string \<Rightarrow> real option \<Rightarrow> real option \<Rightarrow> template" where
  "ma_reason pre mid f sl =
     [Str pre] @ (case f of Some x \<Rightarrow> [Num x] | None \<Rightarrow> [Str ''NaN'']) @ [Str mid]
     @ (case sl of Some x \<Rightarrow> [Num x] | None \<Rightarrow> [Str ''NaN'']) @ [Str '')'']"

text \<open>\<open>analyzeMarket(closePrices)\<close>; a missing argument is \<open>None\<close>.\<close>

definition analyzeMarket :: "real list option \<Rightarrow> analysis" where
  "analyzeMarket closePrices =
     (case closePrices of
        None \<Rightarrow>
          \<lparr>an_signal = WAIT, an_reason = [Str ''Insufficient data for analysis''],
           an_fastMA = None, an_slowMA = None, fastMAPeriod = None, slowMAPeriod = None\<rparr>
      | Some prices \<Rightarrow>
          if length prices < SLOW_MA_PERIOD + 2 then
            \<lparr>an_signal = WAIT, an_reason = [Str ''Insufficient data for analysis''],
             an_fastMA = None, an_slowMA = None, fastMAPeriod = None, slowMAPeriod = None\<rparr>
          else
            let fastMAValues = calculateSMA prices FAST_MA_PERIOD;
                slowMAValues = calculateSMA prices SLOW_MA_PERIOD;
                currentFastMA = js_index fastMAValues (int (length fastMAValues) - 1);
                currentSlowMA = js_index slowMAValues (int (length slowMAValues) - 1);
                prevFastMA = js_index fastMAValues (int (length fastMAValues) - 2);
                prevSlowMA = js_index slowMAValues (int (length slowMAValues) - 2);
                fastMA = map_option round2 currentFastMA;
                slowMA = map_option round2 currentSlowMA;
                (sig, reason) =
                  (if js_le prevFastMA prevSlowMA \<and> js_less currentSlowMA currentFastMA then
                     (BUY, ma_reason ''Bullish crossover: Fast MA (''
                             '') crossed above Slow MA ('' fastMA slowMA)
                   else if js_le prevSlowMA prevFastMA \<and> js_less currentFastMA currentSlowMA then
                     (SELL, ma_reason ''Bearish crossover: Fast MA (''
                              '') crossed below Slow MA ('' fastMA slowMA)
                   else if js_less currentSlowMA currentFastMA then
                     (BUY, ma_reason ''Bullish trend: Fast MA ('' '') above Slow MA (''
                             fastMA slowMA)
                   else if js_less currentFastMA currentSlowMA then
                     (SELL, ma_reason ''Bearish trend: Fast MA ('' '') below Slow MA (''
                              fastMA slowMA)
                   else
                     (WAIT, ma_reason ''MAs converging: Fast MA ('' '') ~ Slow MA (''
                              fastMA slowMA))
            in \<lparr>an_signal = sig, an_reason = reason, an_fastMA = fastMA, an_slowMA = slowMA,
                fastMAPeriod = Some FAST_MA_PERIOD, slowMAPeriod = Some SLOW_MA_PERIOD\<rparr>)"

text \<open>The rule of the specification on the previous and current values of the two
  averages.\<close>

definition crossover_rule :: "real \<Rightarrow> real \<Rightarrow> real \<Rightarrow> real \<Rightarrow> signal" where
  "crossover_rule prevFast prevSlow currFast currSlow =
     (if prevFast \<le> prevSlow \<and> currFast > currSlow then BUY
      else if currFast > currSlow then BUY
      else if prevFast \<ge> prevSlow \<and> currFast < currSlow then SELL
      else if currFast < currSlow then SELL
      else WAIT)"

text \<open>The element before the last of a list of at least two elements.\<close>

definition next_to_last :: "'a list \<Rightarrow> 'a" where
  "next_to_last xs = xs ! (length xs - 2)"

text \<open>The signal as the specification words it, on the exact arithmetic means of the
  trailing 9 and 21 prices of the list (current) and of the list without its last price
  (previous).\<close>

definition mean :: "real list \<Rightarrow> real" where
  "mean xs = sum_list xs / real (length xs)"

definition trailing_mean :: "nat \<Rightarrow> real list \<Rightarrow> real" where
  "trailing_mean n xs = mean (drop (length xs - n) xs)"

definition spec_signal :: "real list \<Rightarrow> signal" where
  "spec_signal prices =
     crossover_rule (trailing_mean 9 (butlast prices)) (trailing_mean 21 (butlast prices))
       (trailing_mean 9 prices) (trailing_mean 21 prices)"

section \<open>State store (src/lib/state.js)\<close>

subsection \<open>Values\<close>

text \<open>Instrument identifiers are strings. \<open>Date.now()\<close> is an integer number of milliseconds;
  the value read by \<open>new Date()\<close> is carried as the same kind of number.\<close>

type_synonym instId = string
type_synonym time = int

text \<open>\<open>String.prototype.toUpperCase\<close> on ASCII strings.\<close>

definition toUpperChar :: "char \<Rightarrow> char" where
  "toUpperChar c =
     (let n = (of_char c :: nat) in if 97 \<le> n \<and> n \<le> 122 then char_of (n - 32) else c)"

definition toUpperCase :: "string \<Rightarrow> string" where
  "toUpperCase s = map toUpperChar s"

text \<open>Decimal rendering of an integer, as a template literal prints \<open>Date.now()\<close>.\<close>

fun dec_digits :: "nat \<Rightarrow> string" where
  "dec_digits n =
     (if n < 10 then [char_of (48 + n)]
      else dec_digits (n div 10) @ [char_of (48 + n mod 10)])"

declare dec_digits.simps [simp del]

definition int_to_string :: "int \<Rightarrow> string" where
  "int_to_string i = (if i < 0 then CHR ''-'' # dec_digits (nat (- i)) else dec_digits (nat i))"

text \<open>\<open>Array.prototype.findIndex\<close>: the first index whose element satisfies the predicate;
  the result \<open>-1\<close> is \<open>None\<close>.\<close>

fun findIndex :: "('a \<Rightarrow> bool) \<Rightarrow> 'a list \<Rightarrow> nat option" where
  "findIndex P [] = None"
| "findIndex P (x # xs) =
     (if P x then Some 0 else map_option Suc (findIndex P xs))"

text \<open>\<open>xs.splice(i, 1)\<close>: remove the element at index \<open>i\<close>.\<close>

definition splice1 :: "nat \<Rightarrow> 'a list \<Rightarrow> 'a list" where
  "splice1 i xs = take i xs @ drop (Suc i) xs"

subsection \<open>Records of the store\<close>

record log_entry =
  timestamp :: time
  message :: template
  log_type :: string

record pair_state =
  ps_lastPosition :: "direction option"
  ps_lastTradeTime :: "time option"
  ps_signal :: "signal option"

record position =
  pos_id :: string
  instId :: instId
  side :: string
  pos_size :: real
  leverage :: real
  entryPrice :: real
  currentPrice :: real
  pos_timestamp :: time
  orderId :: "string option"
  mode :: string

record trade_config =
  tradeSize :: real
  tc_leverage :: real
  maxLeverage :: real

record trade =
  trade_side :: string
  trade_price :: real
  trade_size :: real
  trade_timestamp :: time

record market_price =
  price :: real
  mp_timestamp :: time

text \<open>The singleton \<open>botState\<close>. The timer handle \<open>intervalId\<close> is left out.\<close>

record bot_state =
  isRunning :: bool
  currentSignal :: signal
  lastPosition :: "direction option"
  pairState :: "instId \<rightharpoonup> pair_state"
  lastTradeTime :: "time option"
  cooldownSeconds :: real
  pairCooldownSeconds :: real
  lastTrade :: "trade option"
  positions :: "position list"
  tradeConfig :: trade_config
  logs :: "log_entry list"
  maxLogs :: nat
  marketPrices :: "instId \<rightharpoonup> market_price"
  lastPrice :: "real option"
  fastMA :: "real option"
  slowMA :: "real option"

text \<open>The initial value of \<open>botState\<close>, for a trade configuration loaded by \<open>loadConfig\<close>.\<close>

definition initialState :: "trade_config \<Rightarrow> bot_state" where
  "initialState cfg =
     \<lparr>isRunning = False, currentSignal = WAIT, lastPosition = None, pairState = Map.empty,
      lastTradeTime = None, cooldownSeconds = 60, pairCooldownSeconds = 30, lastTrade = None,
      positions = [], tradeConfig = cfg, logs = [], maxLogs = 100,
      marketPrices = Map.empty, lastPrice = None, fastMA = None, slowMA = None\<rparr>"

subsection \<open>Activity log\<close>

text \<open>\<open>addLog(message, type)\<close> at clock reading \<open>now\<close>: \<open>unshift\<close> the entry, then keep the
  first \<open>maxLogs\<close> entries when the log has grown longer than that. The echo to the console
  is not part of the state.\<close>

definition addLog :: "time \<Rightarrow> template \<Rightarrow> string \<Rightarrow> bot_state \<Rightarrow> bot_state" where
  "addLog now msg ty s =
     (let entry = \<lparr>timestamp = now, message = msg, log_type = ty\<rparr>;
          ls = entry # logs s
      in s\<lparr>logs := (if length ls > maxLogs s then take (maxLogs s) ls else ls)\<rparr>)"

subsection \<open>Open positions\<close>

definition updateMarketPrice :: "time \<Rightarrow> instId \<Rightarrow> real \<Rightarrow> bot_state \<Rightarrow> bot_state" where
  "updateMarketPrice now i p s =
     s\<lparr>marketPrices := (marketPrices s)(i \<mapsto> \<lparr>price = p, mp_timestamp = now\<rparr>),
       positions := map (\<lambda>pos. if instId pos = i then pos\<lparr>currentPrice := p\<rparr> else pos)
                        (positions s)\<rparr>"

text \<open>The argument object of \<open>addPosition\<close>. \<open>size\<close> and \<open>price\<close> are given as the numbers
  that \<open>parseFloat\<close> reads from them; an absent \<open>orderId\<close>, \<open>mode\<close> or \<open>leverage\<close> is \<open>None\<close>.\<close>

record position_input =
  pi_instId :: instId
  pi_side :: string
  pi_size :: real
  pi_price :: real
  pi_orderId :: "string option"
  pi_mode :: "string option"
  pi_leverage :: "real option"

text \<open>\<open>x || fallback\<close> for an optional string: \<open>undefined\<close> and the empty string are falsy.\<close>

definition or_string :: "string option \<Rightarrow> string \<Rightarrow> string" where
  "or_string x d = (case x of None \<Rightarrow> d | Some v \<Rightarrow> if v = [] then d else v)"

text \<open>\<open>parseFloat(x) || 1\<close>: \<open>NaN\<close> (from \<open>undefined\<close>) and zero are falsy.\<close>

definition or_one :: "real option \<Rightarrow> real" where
  "or_one x = (case x of None \<Rightarrow> 1 | Some v \<Rightarrow> if v = 0 then 1 else v)"

definition newPosition :: "time \<Rightarrow> position_input \<Rightarrow> position" where
  "newPosition now p =
     \<lparr>pos_id = or_string (pi_orderId p) (''pos_'' @ int_to_string now),
      instId = pi_instId p, side = pi_side p, pos_size = pi_size p,
      leverage = or_one (pi_leverage p), entryPrice = pi_price p, currentPrice = pi_price p,
      pos_timestamp = now, orderId = pi_orderId p, mode = or_string (pi_mode p) ''live''\<rparr>"

text \<open>First half of \<open>addPosition\<close>: an open position of the same instrument and another side
  is removed and the removal is logged.\<close>

definition closeOpposite :: "time \<Rightarrow> position_input \<Rightarrow> bot_state \<Rightarrow> bot_state" where
  "closeOpposite now p s =
     (case findIndex (\<lambda>q. instId q = pi_instId p \<and> side q \<noteq> pi_side p) (positions s) of
        None \<Rightarrow> s
      | Some i \<Rightarrow>
          let closedPos = positions s ! i
          in addLog now
               [Str ''Position closed: '', Str (toUpperCase (side closedPos)), Str '' '',
                Str (instId closedPos)] ''trade''
               (s\<lparr>positions := splice1 i (positions s)\<rparr>))"

text \<open>Second half of \<open>addPosition\<close>: merge into the open position of the same instrument and
  side (sizes add up, the entry price is the size-weighted average, both computed in
  doubles; the latest leverage wins), or push the new position.\<close>

definition mergeOrPush :: "time \<Rightarrow> position_input \<Rightarrow> bot_state \<Rightarrow> bot_state" where
  "mergeOrPush now p s =
     (case findIndex (\<lambda>q. instId q = pi_instId p \<and> side q = pi_side p) (positions s) of
        Some i \<Rightarrow>
          let existing = positions s ! i;
              existingSize = pos_size existing;
              existingEntry = entryPrice existing;
              totalSize = fadd existingSize (pi_size p);
              avgPrice = fdiv (fadd (fmul existingEntry existingSize)
                                    (fmul (pi_price p) (pi_size p))) totalSize
          in addLog now
               [Str ''Position added: '', Str (toUpperCase (pi_side p)), Str '' '',
                Str (pi_instId p), Str '' (avg: $'', Fixed2 avgPrice, Str '')''] ''trade''
               (s\<lparr>positions := (positions s)
                     [i := existing\<lparr>pos_size := totalSize, entryPrice := avgPrice,
                                    leverage := or_one (pi_leverage p)\<rparr>]\<rparr>)
      | None \<Rightarrow>
          addLog now
            [Str ''Position opened: '', Str (toUpperCase (pi_side p)), Str '' '',
             Num (pi_size p), Str '' '', Str (pi_instId p), Str '' @ $'', Num (pi_price p)]
            ''trade''
            (s\<lparr>positions := positions s @ [newPosition now p]\<rparr>))"

definition addPosition :: "time \<Rightarrow> position_input \<Rightarrow> bot_state \<Rightarrow> position \<times> bot_state" where
  "addPosition now p s = (newPosition now p, mergeOrPush now p (closeOpposite now p s))"

text \<open>\<open>closePosition(positionId)\<close>: the removed position, or \<open>null\<close> (\<open>None\<close>).\<close>

definition closePosition :: "time \<Rightarrow> string \<Rightarrow> bot_state \<Rightarrow> position option \<times> bot_state" where
  "closePosition now positionId s =
     (case findIndex (\<lambda>p. pos_id p = positionId) (positions s) of
        Some i \<Rightarrow>
          let pos = positions s ! i
          in (Some pos,
              addLog now
                [Str ''Position manually closed: '', Str (toUpperCase (side pos)), Str '' '',
                 Str (instId pos)] ''trade''
                (s\<lparr>positions := splice1 i (positions s)\<rparr>))
      | None \<Rightarrow> (None, s))"

definition clearPositions :: "time \<Rightarrow> bot_state \<Rightarrow> bot_state" where
  "clearPositions now s = addLog now [Str ''All positions cleared''] ''info'' (s\<lparr>positions := []\<rparr>)"

text \<open>The operations on the positions collection, and a run of them from a given state.\<close>

datatype store_op =
    AddPosition time position_input
  | ClosePosition time string
  | ClearPositions time
  | UpdateMarketPrice time instId real

fun apply_op :: "bot_state \<Rightarrow> store_op \<Rightarrow> bot_state" where
  "apply_op s (AddPosition now p) = snd (addPosition now p s)"
| "apply_op s (ClosePosition now pid) = snd (closePosition now pid s)"
| "apply_op s (ClearPositions now) = clearPositions now s"
| "apply_op s (UpdateMarketPrice now i p) = updateMarketPrice now i p s"

definition run_ops :: "bot_state \<Rightarrow> store_op list \<Rightarrow> bot_state" where
  "run_ops s ops = foldl apply_op s ops"

text \<open>A run of log appends: each element is the clock reading, the message and the type.\<close>

definition run_logs :: "bot_state \<Rightarrow> (time \<times> template \<times> string) list \<Rightarrow> bot_state" where
  "run_logs s es = foldl (\<lambda>st (now, msg, ty). addLog now msg ty st) s es"

definition entry_of :: "time \<times> template \<times> string \<Rightarrow> log_entry" where
  "entry_of e = (case e of (now, msg, ty) \<Rightarrow> \<lparr>timestamp = now, message = msg, log_type = ty\<rparr>)"

subsection \<open>Per-instrument state and cooldown\<close>

text \<open>\<open>getPairState(instId)\<close> creates the entry on first reference and returns it.\<close>

definition getPairState :: "instId \<Rightarrow> bot_state \<Rightarrow> pair_state \<times> bot_state" where
  "getPairState i s =
     (case pairState s i of
        None \<Rightarrow>
          (let ps = \<lparr>ps_lastPosition = None, ps_lastTradeTime = None, ps_signal = Some WAIT\<rparr>
           in (ps, s\<lparr>pairState := (pairState s)(i \<mapsto> ps)\<rparr>))
      | Some ps \<Rightarrow> (ps, s))"

definition updatePairState :: "time \<Rightarrow> instId \<Rightarrow> string \<Rightarrow> bot_state \<Rightarrow> bot_state" where
  "updatePairState now i sd s =
     (let ps = (case pairState s i of
                  None \<Rightarrow> \<lparr>ps_lastPosition = None, ps_lastTradeTime = None, ps_signal = None\<rparr>
                | Some ps \<Rightarrow> ps)
      in s\<lparr>pairState := (pairState s)
             (i \<mapsto> ps\<lparr>ps_lastPosition := Some (if sd = ''buy'' then long else short),
                      ps_lastTradeTime := Some now\<rparr>)\<rparr>)"

definition setPairSignal :: "instId \<Rightarrow> signal \<Rightarrow> bot_state \<Rightarrow> bot_state" where
  "setPairSignal i sig s =
     (let ps = (case pairState s i of
                  None \<Rightarrow> \<lparr>ps_lastPosition = None, ps_lastTradeTime = None, ps_signal = None\<rparr>
                | Some ps \<Rightarrow> ps)
      in s\<lparr>pairState := (pairState s)(i \<mapsto> ps\<lparr>ps_signal := Some sig\<rparr>)\<rparr>)"

text \<open>\<open>isPairInCooldown(instId)\<close> at clock reading \<open>now\<close>. The test \<open>!pairState.lastTradeTime\<close>
  also holds for the number 0.\<close>

definition isPairInCooldown :: "time \<Rightarrow> instId \<Rightarrow> bot_state \<Rightarrow> bool" where
  "isPairInCooldown now i s =
     (case pairState s i of
        None \<Rightarrow> False
      | Some ps \<Rightarrow>
          (case ps_lastTradeTime ps of
             None \<Rightarrow> False
           | Some t \<Rightarrow>
               if t = 0 then False
               else real_of_int (now - t) / 1000 < pairCooldownSeconds s))"

definition getPairCooldownRemaining :: "time \<Rightarrow> instId \<Rightarrow> bot_state \<Rightarrow> real" where
  "getPairCooldownRemaining now i s =
     (case pairState s i of
        None \<Rightarrow> 0
      | Some ps \<Rightarrow>
          (case ps_lastTradeTime ps of
             None \<Rightarrow> 0
           | Some t \<Rightarrow>
               if t = 0 then 0
               else max 0 (js_round (pairCooldownSeconds s - real_of_int (now - t) / 1000))))"

text \<open>The cooldown clock and the last position of an instrument, as a reader of
  \<open>pairState\<close> sees them: a missing entry, \<open>undefined\<close> and \<open>null\<close> read alike.\<close>

definition pairLastTradeTime :: "bot_state \<Rightarrow> instId \<Rightarrow> time option" where
  "pairLastTradeTime s i = (case pairState s i of None \<Rightarrow> None | Some ps \<Rightarrow> ps_lastTradeTime ps)"

definition pairLastPosition :: "bot_state \<Rightarrow> instId \<Rightarrow> direction option" where
  "pairLastPosition s i = (case pairState s i of None \<Rightarrow> None | Some ps \<Rightarrow> ps_lastPosition ps)"

subsection \<open>Global trade record and signal\<close>

definition recordTrade :: "time \<Rightarrow> string \<Rightarrow> real \<Rightarrow> real \<Rightarrow> bot_state \<Rightarrow> bot_state" where
  "recordTrade now sd pr sz s =
     addLog now
       [Str ''Trade executed: '', Str (toUpperCase sd), Str '' '', Num sz, Str '' USDT at $'',
        Num pr] ''trade''
       (s\<lparr>lastTrade := Some \<lparr>trade_side = sd, trade_price = pr, trade_size = sz,
                              trade_timestamp = now\<rparr>,
          lastTradeTime := Some now,
          lastPosition := Some (if sd = ''buy'' then long else short)\<rparr>)"

definition setSignal :: "time \<Rightarrow> signal \<Rightarrow> bot_state \<Rightarrow> bot_state" where
  "setSignal now sig s =
     (let s1 = (if currentSignal s \<noteq> sig
                then addLog now
                       [Str ''Signal changed: '', Str (signal_name (currentSignal s)),
                        Str '' -> '', Str (signal_name sig)] ''signal'' s
                else s)
      in s1\<lparr>currentSignal := sig\<rparr>)"

subsection \<open>Trade configuration\<close>

text \<open>A value of a parsed JSON body, as far as \<open>typeof\<close> tells values apart.\<close>

datatype json = JNull | JBool bool | JNum real | JStr string | JOther

text \<open>The argument object of \<open>setTradeConfig\<close>; an absent property is \<open>None\<close>.\<close>

record config_update =
  cu_tradeSize :: "json option"
  cu_leverage :: "json option"
  cu_margin :: "json option"

definition getTradeConfig :: "bot_state \<Rightarrow> trade_config" where
  "getTradeConfig s = tradeConfig s"

text \<open>\<open>setTradeConfig(config)\<close>. Writing the configuration file (\<open>saveConfig\<close>) is outside the
  state.\<close>

definition setTradeConfig :: "time \<Rightarrow> config_update \<Rightarrow> bot_state \<Rightarrow> trade_config \<times> bot_state" where
  "setTradeConfig now config s =
     (let s1 = (case cu_tradeSize config of
                  Some (JNum v) \<Rightarrow>
                    if v > 0 then
                      addLog now [Str ''Trade size updated to '', Num v, Str '' USDT''] ''info''
                        (s\<lparr>tradeConfig := (tradeConfig s)\<lparr>tradeSize := v\<rparr>\<rparr>)
                    else s
                | _ \<Rightarrow> s);
          s2 = (case cu_leverage config of
                  Some (JNum l) \<Rightarrow>
                    let lev = min (max 1 l) (maxLeverage (tradeConfig s1))
                    in addLog now [Str ''Leverage updated to '', Num lev, Str ''x''] ''info''
                         (s1\<lparr>tradeConfig := (tradeConfig s1)\<lparr>tc_leverage := lev\<rparr>\<rparr>)
                | _ \<Rightarrow> s1)
      in (getTradeConfig s2, s2))"

section \<open>Settings route (POST /api/settings)\<close>

text \<open>The parsed request body; an absent property is \<open>None\<close>.\<close>

record settings_body =
  b_demoMode :: "json option"
  b_margin :: "json option"
  b_tradeSize :: "json option"
  b_leverage :: "json option"

text \<open>\<open>a ?? b\<close>: the right operand when the left one is \<open>undefined\<close> or \<open>null\<close>.\<close>

definition nullish :: "json option \<Rightarrow> json option \<Rightarrow> json option" where
  "nullish a b = (case a of None \<Rightarrow> b | Some JNull \<Rightarrow> b | Some v \<Rightarrow> Some v)"

definition is_number :: "json option \<Rightarrow> bool" where
  "is_number v = (case v of Some (JNum x) \<Rightarrow> True | _ \<Rightarrow> False)"

record settings_response =
  sr_success :: bool
  sr_demoMode :: bool
  sr_tradeConfig :: trade_config

text \<open>The handler on the pair of the connector's \<open>demoMode\<close> flag and the bot state.\<close>

definition settingsPOST ::
  "time \<Rightarrow> settings_body \<Rightarrow> bool \<times> bot_state \<Rightarrow> settings_response \<times> bool \<times> bot_state" where
  "settingsPOST now body st =
     (let (dm, s) = st;
          (dm1, s1) = (case b_demoMode body of
                         Some (JBool b) \<Rightarrow>
                           (b, addLog now
                                 [Str ''Demo mode '', Str (if b then ''enabled'' else ''disabled'')]
                                 ''info'' s)
                       | _ \<Rightarrow> (dm, s));
          marginValue = nullish (b_margin body) (b_tradeSize body);
          s2 = (if is_number marginValue
                then snd (setTradeConfig now
                       \<lparr>cu_tradeSize = None, cu_leverage = None, cu_margin = marginValue\<rparr> s1)
                else s1);
          s3 = (if is_number (b_leverage body)
                then snd (setTradeConfig now
                       \<lparr>cu_tradeSize = None, cu_leverage = b_leverage body, cu_margin = None\<rparr> s2)
                else s2)
      in (\<lparr>sr_success = True, sr_demoMode = dm1, sr_tradeConfig = getTradeConfig s3\<rparr>,
          dm1, s3))"

section \<open>Bot route: per-instrument pipeline and trading cycle\<close>

text \<open>An \<open>Error\<close> with its message.\<close>

datatype error = Error string

fun error_message :: "error \<Rightarrow> string" where
  "error_message (Error m) = m"

text \<open>What the pipeline reads of a ticker, a candle and a placed order.\<close>

record ticker =
  tk_last :: real

record candle =
  close :: real

record order =
  ord_orderId :: "string option"
  simulated :: bool

text \<open>The calls made to the exchange connector, in order.\<close>

datatype call =
    GetTicker instId
  | GetCandles instId string nat
  | PlaceMarketOrder instId string real real

text \<open>The world of one run of \<open>executePairTrade\<close>: what each awaited call settles to, the
  connector's demo flag, and the clock. The clock is read once in each synchronous stretch:
  on entry (\<open>t_start\<close>), when the market data has settled (\<open>t_data\<close>), and when the order has
  settled (\<open>t_order\<close>).\<close>

record pair_env =
  t_start :: time
  t_data :: time
  t_order :: time
  ticker_reply :: "error + ticker"
  candles_reply :: "error + candle list"
  order_reply :: "error + order"
  demo :: bool

text \<open>The object returned by \<open>executePairTrade\<close>; absent properties are \<open>None\<close>.\<close>

record pair_result =
  r_instId :: instId
  r_executed :: bool
  r_reason :: "template option"
  r_signal :: "signal option"
  r_mode :: "string option"
  r_side :: "string option"
  r_price :: "real option"
  r_orderId :: "string option"

definition CANDLE_TIMEFRAME :: string where
  "CANDLE_TIMEFRAME = ''1m''"

definition CANDLE_LIMIT :: nat where
  "CANDLE_LIMIT = 100"

definition TRADING_PAIRS :: "instId list" where
  "TRADING_PAIRS = [''BTC-USDT'', ''ETH-USDT'', ''SOL-USDT'', ''XRP-USDT'', ''DOGE-USDT'', ''ADA-USDT'']"

text \<open>The \<open>catch\<close> block of \<open>executePairTrade\<close>.\<close>

definition pairCatch ::
  "time \<Rightarrow> instId \<Rightarrow> error \<Rightarrow> call list \<Rightarrow> bot_state \<Rightarrow> pair_result \<times> call list \<times> bot_state" where
  "pairCatch now i e calls s =
     (\<lparr>r_instId = i, r_executed = False, r_reason = Some [Str (error_message e)],
       r_signal = None, r_mode = None, r_side = None, r_price = None, r_orderId = None\<rparr>,
      calls,
      addLog now [Str ''['', Str i, Str ''] Error: '', Str (error_message e)] ''error'' s)"

text \<open>The pipeline up to the point where the order is about to be submitted: either it is
  over (\<open>Done\<close>), or the order goes out from the state reached (\<open>Submit\<close>). The source
  passes the trade size on as \<open>String(tradeConfig.tradeSize)\<close> and reads it back with
  \<open>parseFloat\<close>; the model passes the number.\<close>

datatype prepared =
    Done pair_result "call list" bot_state
  | Submit string real real ticker analysis "call list" bot_state

definition prepareTrade :: "instId \<Rightarrow> pair_env \<Rightarrow> bot_state \<Rightarrow> prepared" where
  "prepareTrade i env s =
     (if isPairInCooldown (t_start env) i s then
        Done \<lparr>r_instId = i, r_executed = False,
               r_reason = Some [Str ''Cooldown '',
                                Num (getPairCooldownRemaining (t_start env) i s), Str ''s''],
               r_signal = None, r_mode = None, r_side = None, r_price = None,
               r_orderId = None\<rparr> [] s
      else
        case ticker_reply env of
          Inl e \<Rightarrow> (case pairCatch (t_data env) i e [GetTicker i] s of (r, c, s') \<Rightarrow> Done r c s')
        | Inr tk \<Rightarrow>
           (case candles_reply env of
              Inl e \<Rightarrow>
                (case pairCatch (t_data env) i e
                        [GetTicker i, GetCandles i CANDLE_TIMEFRAME CANDLE_LIMIT] s of
                   (r, c, s') \<Rightarrow> Done r c s')
            | Inr candles \<Rightarrow>
                let calls = [GetTicker i, GetCandles i CANDLE_TIMEFRAME CANDLE_LIMIT];
                    closePrices = map close candles;
                    an = analyzeMarket (Some closePrices);
                    s1 = updateMarketPrice (t_data env) i (tk_last tk) s;
                    s2 = setPairSignal i (an_signal an) s1;
                    (pairSt, s3) = getPairState i s2;
                    tradeDecision = shouldTrade (an_signal an) (ps_lastPosition pairSt)
                in if \<not> shouldTrade_flag tradeDecision then
                     Done \<lparr>r_instId = i, r_executed = False,
                            r_reason = Some [Str (td_reason tradeDecision)],
                            r_signal = Some (an_signal an), r_mode = None, r_side = None,
                            r_price = None, r_orderId = None\<rparr> calls s3
                   else
                     let tc = getTradeConfig s3;
                         tradeSz = tradeSize tc;
                         lev = tc_leverage tc
                     in case td_side tradeDecision of
                          None \<Rightarrow>
                            (case pairCatch (t_data env) i
                                    (Error ''Cannot read properties of undefined'') calls s3 of
                               (r, c, s') \<Rightarrow> Done r c s')
                        | Some sd \<Rightarrow>
                            Submit sd tradeSz lev tk an
                              (calls @ [PlaceMarketOrder i sd tradeSz lev])
                              (addLog (t_data env)
                                 [Str ''['', Str i, Str ''] '', Str (toUpperCase sd), Str '' @ $'',
                                  Num (tk_last tk), Str '' - '', Num tradeSz, Str '' USDT @ '',
                                  Num lev, Str ''x''] ''trade'' s3)))"

text \<open>The pipeline after a successful order. The trade history of src/lib/tradeLog.js,
  which \<open>logTrade\<close> extends, is a store of its own and not part of \<open>botState\<close>.\<close>

definition settleTrade ::
  "instId \<Rightarrow> pair_env \<Rightarrow> string \<Rightarrow> real \<Rightarrow> real \<Rightarrow> ticker \<Rightarrow> order \<Rightarrow> call list \<Rightarrow> bot_state
     \<Rightarrow> pair_result \<times> call list \<times> bot_state" where
  "settleTrade i env sd tradeSz lev tk ord calls s =
     (let md = (if demo env then ''demo'' else ''live'');
          s5 = updatePairState (t_order env) i sd s;
          s6 = recordTrade (t_order env) sd (tk_last tk) tradeSz s5;
          s7 = snd (addPosition (t_order env)
                 \<lparr>pi_instId = i, pi_side = sd, pi_size = tradeSz, pi_price = tk_last tk,
                  pi_orderId = ord_orderId ord, pi_mode = Some md, pi_leverage = Some lev\<rparr> s6);
          s8 = addLog (t_order env)
                 [Str ''['', Str i, Str ''] Order filled! '',
                  Str (case ord_orderId ord of Some x \<Rightarrow> x | None \<Rightarrow> ''undefined''),
                  Str (if simulated ord then '' (SIM)'' else [])] ''trade'' s7
      in (\<lparr>r_instId = i, r_executed = True, r_reason = None, r_signal = None,
           r_mode = Some md, r_side = Some sd, r_price = Some (tk_last tk),
           r_orderId = ord_orderId ord\<rparr>, calls, s8))"

definition executePairTrade ::
  "instId \<Rightarrow> pair_env \<Rightarrow> bot_state \<Rightarrow> pair_result \<times> call list \<times> bot_state" where
  "executePairTrade i env s =
     (case prepareTrade i env s of
        Done r calls s' \<Rightarrow> (r, calls, s')
      | Submit sd tradeSz lev tk an calls s4 \<Rightarrow>
          (case order_reply env of
             Inl e \<Rightarrow> pairCatch (t_order env) i e calls s4
           | Inr ord \<Rightarrow> settleTrade i env sd tradeSz lev tk ord calls s4))"

text \<open>The world of one trading cycle: whether credentials are configured, the world of each
  instrument's pipeline, and the clock at the start, at a \<open>catch\<close> in the loop and at the end.\<close>

record cycle_env =
  configured :: bool
  pair_envs :: "instId \<Rightarrow> pair_env"
  t_begin :: time
  t_catch :: "instId \<Rightarrow> time"
  t_end :: time

record cycle_report =
  c_executed :: bool
  c_reason :: "string option"
  tradesExecuted :: "nat option"
  totalPairs :: "nat option"
  trades :: "pair_result list"

text \<open>A pipeline as the loop sees it: it returns a result or throws (\<open>Inl\<close>).\<close>

type_synonym pipeline = "instId \<Rightarrow> bot_state \<Rightarrow> (error + pair_result) \<times> call list \<times> bot_state"

text \<open>The \<open>for\<close> loop of \<open>executeTradingCycle\<close> over the remaining instruments, with the
  results so far, the count of executed trades, the calls made and the state. The pause
  between instruments is not modelled.\<close>

fun cycleLoop ::
  "pipeline \<Rightarrow> (instId \<Rightarrow> time) \<Rightarrow> instId list
     \<Rightarrow> pair_result list \<times> nat \<times> call list \<times> bot_state
     \<Rightarrow> pair_result list \<times> nat \<times> call list \<times> bot_state" where
  "cycleLoop run tc [] acc = acc"
| "cycleLoop run tc (i # rest) (results, n, calls, s) =
     (case run i s of
        (Inr result, c, s') \<Rightarrow>
          cycleLoop run tc rest
            (results @ [result], (if r_executed result then Suc n else n), calls @ c, s')
      | (Inl pairError, c, s') \<Rightarrow>
          cycleLoop run tc rest
            (results @ [\<lparr>r_instId = i, r_executed = False,
                         r_reason = Some [Str (error_message pairError)], r_signal = None,
                         r_mode = None, r_side = None, r_price = None, r_orderId = None\<rparr>],
             n, calls @ c,
             addLog (tc i) [Str ''['', Str i, Str ''] Failed: '', Str (error_message pairError)]
               ''error'' s'))"

definition tradingCycle ::
  "pipeline \<Rightarrow> cycle_env \<Rightarrow> bot_state \<Rightarrow> cycle_report \<times> call list \<times> bot_state" where
  "tradingCycle run env s =
     (let s0 = addLog (t_begin env)
                 [Str ''Scanning '', Num (real (length TRADING_PAIRS)), Str '' pairs...''] ''info'' s
      in if \<not> configured env then
           (\<lparr>c_executed = False, c_reason = Some ''API not configured'', tradesExecuted = None,
             totalPairs = None, trades = []\<rparr>, [],
            addLog (t_begin env) [Str ''API not configured - skipping trade execution'']
              ''error'' s0)
         else
           let (results, n, calls, s1) = cycleLoop run (t_catch env) TRADING_PAIRS ([], 0, [], s0);
               s2 = addLog (t_end env)
                      [Str ''Cycle complete: '', Num (real n), Str ''/'',
                       Num (real (length TRADING_PAIRS)), Str '' trades executed''] ''info'' s1;
               s3 = (if length results > 0 then
                       (case find (\<lambda>r. r_instId r = ''BTC-USDT'') results of
                          Some btcResult \<Rightarrow>
                            (case r_signal btcResult of
                               Some sig \<Rightarrow> setSignal (t_end env) sig s2
                             | None \<Rightarrow> s2)
                        | None \<Rightarrow> s2)
                     else s2)
           in (\<lparr>c_executed = (n > 0), c_reason = None, tradesExecuted = Some n,
                totalPairs = Some (length TRADING_PAIRS), trades = results\<rparr>, calls, s3))"

text \<open>\<open>executeTradingCycle\<close>: the cycle over \<open>executePairTrade\<close>, which always returns.\<close>

definition executeTradingCycle ::
  "cycle_env \<Rightarrow> bot_state \<Rightarrow> cycle_report \<times> call list \<times> bot_state" where
  "executeTradingCycle env s =
     tradingCycle
       (\<lambda>i st. case executePairTrade i (pair_envs env i) st of (r, c, st') \<Rightarrow> (Inr r, c, st'))
       env s"

text \<open>The cycle told turn by turn. \<open>cycleStart\<close> is the state in which the loop begins.
  For any pipeline, \<open>turnResult\<close> is the result one turn of the loop records for an instrument
  and \<open>turnState\<close> the state the turn leaves; \<open>stateBefore\<close> is the state in which the turn of
  the \<open>k\<close>-th instrument begins, after the turns of all instruments before it.\<close>

definition cycleStart :: "cycle_env \<Rightarrow> bot_state \<Rightarrow> bot_state" where
  "cycleStart env s =
     addLog (t_begin env)
       [Str ''Scanning '', Num (real (length TRADING_PAIRS)), Str '' pairs...''] ''info'' s"

definition turnResult :: "pipeline \<Rightarrow> instId \<Rightarrow> bot_state \<Rightarrow> pair_result" where
  "turnResult run i s =
     (case run i s of
        (Inr result, c, s') \<Rightarrow> result
      | (Inl pairError, c, s') \<Rightarrow>
          \<lparr>r_instId = i, r_executed = False,
           r_reason = Some [Str (error_message pairError)], r_signal = None,
           r_mode = None, r_side = None, r_price = None, r_orderId = None\<rparr>)"

definition turnState :: "pipeline \<Rightarrow> (instId \<Rightarrow> time) \<Rightarrow> bot_state \<Rightarrow> instId \<Rightarrow> bot_state" where
  "turnState run tc s i =
     (case run i s of
        (Inr result, c, s') \<Rightarrow> s'
      | (Inl pairError, c, s') \<Rightarrow>
          addLog (tc i) [Str ''['', Str i, Str ''] Failed: '', Str (error_message pairError)]
            ''error'' s')"

definition stateBefore ::
  "pipeline \<Rightarrow> (instId \<Rightarrow> time) \<Rightarrow> bot_state \<Rightarrow> instId list \<Rightarrow> nat \<Rightarrow> bot_state" where
  "stateBefore run tc s0 insts k = foldl (turnState run tc) s0 (take k insts)"

text \<open>The pipeline that \<open>executeTradingCycle\<close> runs, and the state in which it reaches the
  \<open>k\<close>-th instrument.\<close>

definition pairPipeline :: "cycle_env \<Rightarrow> pipeline" where
  "pairPipeline env i st =
     (case executePairTrade i (pair_envs env i) st of (r, c, st') \<Rightarrow> (Inr r, c, st'))"

definition pairStateBefore :: "cycle_env \<Rightarrow> bot_state \<Rightarrow> nat \<Rightarrow> bot_state" where
  "pairStateBefore env s k =
     foldl (\<lambda>st i. snd (snd (executePairTrade i (pair_envs env i) st)))
       (cycleStart env s) (take k TRADING_PAIRS)"

text \<open>The trade configuration that \<open>loadConfig\<close> falls back to.\<close>

definition defaultConfig :: trade_config where
  "defaultConfig = \<lparr>tradeSize = 10, tc_leverage = 1, maxLeverage = 125\<rparr>"


text \<open>The invariant of the positions collection: no two open positions share an
  instrument.\<close>

definition one_per_instrument :: "position list \<Rightarrow> bool" where
  "one_per_instrument ps = distinct (map instId ps)"

text \<open>The state from which the pipeline takes its decision: the market price refreshed,
  the instrument's signal stored, its entry created.\<close>

definition observed :: "instId \<Rightarrow> pair_env \<Rightarrow> ticker \<Rightarrow> analysis \<Rightarrow> bot_state \<Rightarrow> bot_state" where
  "observed i env tk an s =
     snd (getPairState i (setPairSignal i (an_signal an) (updateMarketPrice (t_data env) i (tk_last tk) s)))"

section \<open>Scenarios\<close>

text \<open>Closing prices that fall and that rise by one at each candle.\<close>

definition falling_closes :: "real list" where
  "falling_closes = [123, 122, 121, 120, 119, 118, 117, 116, 115, 114, 113, 112, 111, 110, 109,
                     108, 107, 106, 105, 104, 103, 102, 101]"

definition rising_closes :: "real list" where
  "rising_closes = [101, 102, 103, 104, 105, 106, 107, 108, 109, 110, 111, 112, 113, 114, 115,
                    116, 117, 118, 119, 120, 121, 122, 123]"

text \<open>Twenty-three prices that all equal the double written \<open>0.1\<close>, and the step sequence
  of the specification.\<close>

definition flat_tenth :: "real list" where
  "flat_tenth = replicate 23 (3602879701896397 / 36028797018963968)"

definition step_series :: "real list" where
  "step_series = [1, 1, 1, 1, 1, 1, 1, 1, 1, 1, 2, 2, 2, 2, 2, 2, 2, 2, 2, 2, 2, 2, 2]"

definition falling_candles :: "candle list" where
  "falling_candles = map (\<lambda>c. \<lparr>close = c\<rparr>) falling_closes"

definition rising_candles :: "candle list" where
  "rising_candles = map (\<lambda>c. \<lparr>close = c\<rparr>) rising_closes"

text \<open>A state that holds a long position on BTC-USDT, opened at clock reading 1000.\<close>

definition held_long :: bot_state where
  "held_long =
     (initialState defaultConfig)
       \<lparr>pairState := [''BTC-USDT'' \<mapsto>
            \<lparr>ps_lastPosition = Some long, ps_lastTradeTime = Some 1000, ps_signal = Some BUY\<rparr>],
        positions :=
          [\<lparr>pos_id = ''o1'', instId = ''BTC-USDT'', side = ''buy'', pos_size = 10, leverage = 1,
            entryPrice = 100, currentPrice = 100, pos_timestamp = 1000, orderId = Some ''o1'',
            mode = ''demo''\<rparr>]\<rparr>"

text \<open>A run in which the signal is SELL and the exchange rejects the order, and a run in
  which the signal is BUY and the order is filled.\<close>

definition rejected_sell :: pair_env where
  "rejected_sell =
     \<lparr>t_start = 100000, t_data = 100500, t_order = 101000,
      ticker_reply = Inr \<lparr>tk_last = 90\<rparr>,
      candles_reply = Inr falling_candles,
      order_reply = Inl (Error ''Order failed: rejected''),
      demo = True\<rparr>"

definition filled_buy :: pair_env where
  "filled_buy =
     \<lparr>t_start = 1000, t_data = 2000, t_order = 3000,
      ticker_reply = Inr \<lparr>tk_last = 123\<rparr>,
      candles_reply = Inr rising_candles,
      order_reply = Inr \<lparr>ord_orderId = Some ''o7'', simulated = True\<rparr>,
      demo = True\<rparr>"

text \<open>A cycle in which the ticker of BTC-USDT cannot be fetched.\<close>

definition outage_cycle :: cycle_env where
  "outage_cycle =
     \<lparr>configured = True,
      pair_envs = (\<lambda>i. if i = ''BTC-USDT''
                        then filled_buy\<lparr>ticker_reply := Inl (Error ''fetch failed'')\<rparr>
                        else filled_buy),
      t_begin = 500, t_catch = (\<lambda>i. 0), t_end = 9000\<rparr>"

section \<open>Verified properties\<close>

subsection \<open>Decision policy\<close>

text \<open>C4: \<open>shouldTrade\<close> refuses to trade exactly for \<open>WAIT\<close>, for \<open>BUY\<close> with last position
  \<open>long\<close> and for \<open>SELL\<close> with last position \<open>short\<close>; every other pair of a signal and a last
  position trades, on side \<open>buy\<close> for \<open>BUY\<close> and on side \<open>sell\<close> for \<open>SELL\<close>.\<close>

theorem shouldTrade_table:
  "shouldTrade_flag (shouldTrade sig lastPos) =
     (\<not> (sig = WAIT \<or> (sig = BUY \<and> lastPos = Some long) \<or> (sig = SELL \<and> lastPos = Some short)))
   \<and> td_side (shouldTrade sig lastPos) =
     (if sig = WAIT \<or> (sig = BUY \<and> lastPos = Some long) \<or> (sig = SELL \<and> lastPos = Some short)
      then None else if sig = BUY then Some ''buy'' else Some ''sell'')"
  by (simp add: shouldTrade_def)

subsection \<open>Double-precision arithmetic\<close>

lemma powi2_less_D: "(2::real) powi a < 2 powi b \<Longrightarrow> a < b"
  using power_int_increasing [of b a "2::real"] by (cases "a < b") auto

lemma binade_correct:
  "2 powi k \<le> x \<Longrightarrow> x < 2 powi (k + 1) \<Longrightarrow> nat \<bar>k - e\<bar> \<le> n \<Longrightarrow> binade n x e = k"
proof (induction n arbitrary: e)
  case 0
  then show ?case by simp
next
  case (Suc n)
  show ?case
  proof (cases "x < 2 powi e")
    case True
    with Suc.prems(1) have "(2::real) powi k < 2 powi e" by simp
    then have "k < e" by (rule powi2_less_D)
    with Suc.prems(3) have "nat \<bar>k - (e - 1)\<bar> \<le> n" by simp
    from Suc.IH [OF Suc.prems(1,2) this] True show ?thesis by simp
  next
    case False
    show ?thesis
    proof (cases "2 powi (e + 1) \<le> x")
      case True
      with Suc.prems(2) have "(2::real) powi (e + 1) < 2 powi (k + 1)" by simp
      then have "e + 1 < k + 1" by (rule powi2_less_D)
      then have "e < k" by simp
      with Suc.prems(3) have "nat \<bar>k - (e + 1)\<bar> \<le> n" by simp
      from Suc.IH [OF Suc.prems(1,2) this] True False show ?thesis by simp
    next
      case F2: False
      from False Suc.prems(2) have "(2::real) powi e < 2 powi (k + 1)" by simp
      then have "e < k + 1" by (rule powi2_less_D)
      moreover from F2 Suc.prems(1) have "(2::real) powi k < 2 powi (e + 1)" by simp
      then have "k < e + 1" by (rule powi2_less_D)
      ultimately have "e = k" by simp
      with False F2 show ?thesis by simp
    qed
  qed
qed

lemma exponent_eq:
  "2 powi k \<le> \<bar>x\<bar> \<Longrightarrow> \<bar>x\<bar> < 2 powi (k + 1) \<Longrightarrow> - 2200 \<le> k \<Longrightarrow> k \<le> 2200 \<Longrightarrow> exponent x = k"
  unfolding exponent_def by (rule binade_correct) simp_all

lemma fl_eval:
  assumes "2 powi k \<le> \<bar>x\<bar>" "\<bar>x\<bar> < 2 powi (k + 1)" "- 1022 \<le> k" "k \<le> 1023"
  shows "fl x = of_int (round_even (x / 2 powi (k - 52))) * 2 powi (k - 52)"
proof -
  have "exponent x = k" using assms by (intro exponent_eq) simp_all
  moreover have "0 < \<bar>x\<bar>"
    using assms(1) zero_less_power_int [of "2::real" k] by linarith
  then have "x \<noteq> 0" by simp
  ultimately show ?thesis using assms(3) by (simp add: fl_def max_def Let_def)
qed

lemma round_even_of_int: "round_even (of_int m) = m"
  by (simp add: round_even_def)

lemma binade_exists:
  fixes x :: real
  assumes "1 \<le> x" "x \<le> 2 ^ 53"
  shows "\<exists>k. 0 \<le> k \<and> k \<le> 53 \<and> 2 powi k \<le> x \<and> x < 2 powi (k + 1)"
proof -
  define k where "k = \<lfloor>log 2 x\<rfloor>"
  have x: "0 < x" using assms(1) by simp
  have "2 powr (of_int k) \<le> x \<and> x < 2 powr (of_int (k + 1))"
    using floor_log_eq_powr_iff [of x 2 k] x by (simp add: k_def)
  moreover have "2 powr (real_of_int (k + 1)) = 2 powi (k + 1)"
    by (rule powr_real_of_int') simp_all
  moreover have "2 powr (real_of_int k) = 2 powi k"
    by (rule powr_real_of_int') simp_all
  ultimately have b: "2 powi k \<le> x" "x < 2 powi (k + 1)"
    by simp_all
  have "(2::real) powi 0 < 2 powi (k + 1)" using b(2) assms(1) by simp
  then have "0 < k + 1" by (rule powi2_less_D)
  moreover have "(2::real) powi k < 2 powi 54"
  proof -
    have "x < 2 powi 54" using assms(2) by (simp add: power_int_def)
    with b(1) show ?thesis by simp
  qed
  then have "k < 54" by (rule powi2_less_D)
  ultimately show ?thesis using b by (intro exI [of _ k]) simp
qed

lemma fl_of_int:
  assumes "\<bar>n\<bar> \<le> 2 ^ 53"
  shows "fl (of_int n) = of_int n"
proof (cases "n = 0")
  case True
  then show ?thesis by (simp add: fl_def)
next
  case False
  then have "1 \<le> \<bar>n\<bar>" by simp
  then have "1 \<le> \<bar>real_of_int n\<bar>" by (metis of_int_abs of_int_1_le_iff)
  moreover have "\<bar>real_of_int n\<bar> \<le> 2 ^ 53"
    using assms by (metis of_int_abs of_int_le_iff of_int_numeral of_int_power)
  ultimately obtain k where k: "0 \<le> k" "k \<le> 53" "2 powi k \<le> \<bar>real_of_int n\<bar>"
      "\<bar>real_of_int n\<bar> < 2 powi (k + 1)"
    using binade_exists by blast
  have e: "fl (of_int n) = of_int (round_even (of_int n / 2 powi (k - 52))) * 2 powi (k - 52)"
    using k by (intro fl_eval) simp_all
  show ?thesis
  proof (cases "k \<le> 52")
    case True
    have "of_int n / 2 powi (k - 52) = of_int n * (2::real) powi (52 - k)"
      by (simp add: power_int_diff field_simps)
    also have "\<dots> = of_int (n * 2 ^ nat (52 - k))"
      using True by (simp add: power_int_def)
    finally have "of_int n / 2 powi (k - 52) = real_of_int (n * 2 ^ nat (52 - k))" .
    then have "fl (of_int n) = of_int (n * 2 ^ nat (52 - k)) * 2 powi (k - 52)"
      by (simp only: e round_even_of_int)
    also have "\<dots> = of_int n * ((2::real) powi (52 - k) * 2 powi (k - 52))"
      using True by (simp add: power_int_def)
    also have "(2::real) powi (52 - k) * 2 powi (k - 52) = 1"
      by (simp flip: power_int_add)
    finally show ?thesis by simp
  next
    case False
    with k(2) have k53: "k = 53" by simp
    have "(2::real) ^ 53 \<le> \<bar>real_of_int n\<bar>"
      using k(3) by (simp add: k53 power_int_def)
    with \<open>\<bar>real_of_int n\<bar> \<le> 2 ^ 53\<close> have "\<bar>real_of_int n\<bar> = 2 ^ 53" by simp
    then have "\<bar>n\<bar> = 2 ^ 53"
      by (metis of_int_abs of_int_eq_iff of_int_numeral of_int_power)
    then have "even \<bar>n\<bar>" by simp
    then have "even n" by simp
    then have "n = 2 * (n div 2)" by simp
    then have "real_of_int n / 2 powi (k - 52) = real_of_int (n div 2)"
      by (simp add: k53)
    then have "fl (of_int n) = of_int (n div 2) * 2"
      by (simp only: e round_even_of_int) (simp add: k53)
    with \<open>n = 2 * (n div 2)\<close> show ?thesis
      by (metis mult.commute of_int_mult of_int_numeral)
  qed
qed

lemma fl_numeral [simp]: "numeral w \<le> (9007199254740992::int) \<Longrightarrow> fl (numeral w) = numeral w"
  using fl_of_int [of "numeral w"] by simp

lemma fl_zero [simp]: "fl 0 = 0"
  by (simp add: fl_def)

lemma fl_one [simp]: "fl 1 = 1"
  using fl_of_int [of 1] by simp


lemma merge_op_0: "fdiv 1250 15 = 5864062014805333 / 70368744177664"
  by (simp add: fdiv_def fl_eval [where k = "6"] round_even_def power_int_minus)

lemma merge_op_1: "fmul (5864062014805333 / 70368744177664) 15 = 1250"
  by (simp add: fmul_def fl_eval [where k = "10"] round_even_def power_int_minus)

lemma merge_op_2: "fdiv 5 3 = 7505999378950827 / 4503599627370496"
  by (simp add: fdiv_def fl_eval [where k = "0"] round_even_def power_int_minus)

lemmas merge_ops = merge_op_0 merge_op_1 merge_op_2

subsection \<open>Auxiliary facts about lists and the log\<close>

lemma findIndex_None: "findIndex P xs = None \<longleftrightarrow> (\<forall>x\<in>set xs. \<not> P x)"
  by (induction xs) auto

lemma findIndex_Some:
  "findIndex P xs = Some i \<Longrightarrow> i < length xs \<and> P (xs ! i) \<and> (\<forall>j<i. \<not> P (xs ! j))"
proof (induction xs arbitrary: i)
  case Nil
  then show ?case by simp
next
  case (Cons x xs)
  show ?case
  proof (cases "P x")
    case True
    with Cons.prems show ?thesis by simp
  next
    case False
    with Cons.prems obtain k where k: "findIndex P xs = Some k" "i = Suc k"
      by auto
    from Cons.IH [OF k(1)] False k(2) show ?thesis
      by (auto simp: less_Suc_eq_0_disj)
  qed
qed

lemma positions_addLog [simp]: "positions (addLog now msg ty s) = positions s"
  by (simp add: addLog_def Let_def)

lemma logs_addLog:
  "logs (addLog now msg ty s) =
     (if length (logs s) \<ge> maxLogs s then take (maxLogs s) (\<lparr>timestamp = now, message = msg, log_type = ty\<rparr> # logs s)
      else \<lparr>timestamp = now, message = msg, log_type = ty\<rparr> # logs s)"
  by (simp add: addLog_def Let_def)

lemma maxLogs_addLog [simp]: "maxLogs (addLog now msg ty s) = maxLogs s"
  by (simp add: addLog_def Let_def)

lemma logs_addLog_cap:
  "length (logs s) \<le> maxLogs s \<Longrightarrow>
   logs (addLog now msg ty s) = take (maxLogs s) (\<lparr>timestamp = now, message = msg, log_type = ty\<rparr> # logs s)"
  by (simp add: addLog_def Let_def)

lemma run_logs_snoc:
  "run_logs s (es @ [e]) = addLog (fst e) (fst (snd e)) (snd (snd e)) (run_logs s es)"
  by (simp add: run_logs_def split: prod.splits)

lemma maxLogs_run_logs [simp]: "maxLogs (run_logs s es) = maxLogs s"
  by (induction es rule: rev_induct) (simp_all add: run_logs_snoc, simp add: run_logs_def)

lemma take_Cons_take: "take n (x # take n xs) = take n (x # xs)"
  by (cases n) (simp_all add: min_def)

lemma run_logs_take:
  "length (logs s) \<le> maxLogs s \<Longrightarrow>
   logs (run_logs s es) = take (maxLogs s) (rev (map entry_of es) @ logs s)"
proof (induction es rule: rev_induct)
  case Nil
  then show ?case by (simp add: run_logs_def)
next
  case (snoc e es)
  have len: "length (logs (run_logs s es)) \<le> maxLogs (run_logs s es)"
    using snoc by simp
  obtain now msg ty where e: "e = (now, msg, ty)" by (cases e) auto
  have "logs (run_logs s (es @ [e])) = take (maxLogs s) (entry_of e # logs (run_logs s es))"
    using logs_addLog_cap [OF len, of now msg ty] by (simp add: run_logs_snoc e entry_of_def)
  also have "\<dots> = take (maxLogs s) (entry_of e # rev (map entry_of es) @ logs s)"
    by (simp only: snoc.IH [OF snoc.prems] take_Cons_take)
  finally show ?case by simp
qed



lemma distinct_splice1: "distinct (map f xs) \<Longrightarrow> distinct (map f (splice1 i xs))"
proof (cases "i < length xs")
  case True
  assume d: "distinct (map f xs)"
  have "xs = take i xs @ (xs ! i) # drop (Suc i) xs"
    using True by (simp add: id_take_nth_drop)
  then have "distinct (map f (take i xs @ (xs ! i) # drop (Suc i) xs))"
    using d by simp
  then show ?thesis
    by (auto simp: splice1_def)
next
  case False
  assume "distinct (map f xs)"
  with False show ?thesis by (simp add: splice1_def)
qed

lemma set_splice1_subset: "set (splice1 i xs) \<subseteq> set xs"
  by (auto simp: splice1_def dest: in_set_takeD in_set_dropD)

lemma splice1_removes:
  assumes "distinct (map f xs)" "i < length xs"
  shows "f (xs ! i) \<notin> f ` set (splice1 i xs)"
proof -
  have xs: "xs = take i xs @ (xs ! i) # drop (Suc i) xs"
    using assms(2) by (simp add: id_take_nth_drop)
  have "distinct (map f (take i xs @ (xs ! i) # drop (Suc i) xs))"
    using assms(1) xs by simp
  then show ?thesis
    by (auto simp: splice1_def)
qed

lemma closeOpposite_inv:
  "one_per_instrument (positions s) \<Longrightarrow> one_per_instrument (positions (closeOpposite now p s))"
  by (auto simp: closeOpposite_def one_per_instrument_def Let_def distinct_splice1
           split: option.splits)

lemma closeOpposite_no_opposite:
  assumes "one_per_instrument (positions s)" "q \<in> set (positions (closeOpposite now p s))"
    "instId q = pi_instId p"
  shows "side q = pi_side p"
proof (cases "findIndex (\<lambda>q. instId q = pi_instId p \<and> side q \<noteq> pi_side p) (positions s)")
  case None
  then have "positions (closeOpposite now p s) = positions s"
    by (simp add: closeOpposite_def)
  with None assms show ?thesis
    by (auto simp: findIndex_None)
next
  case (Some i)
  from findIndex_Some [OF Some] have i: "i < length (positions s)"
    "instId (positions s ! i) = pi_instId p" by auto
  have "positions (closeOpposite now p s) = splice1 i (positions s)"
    using Some by (simp add: closeOpposite_def Let_def)
  with splice1_removes [of instId "positions s" i] assms i show ?thesis
    by (force simp: one_per_instrument_def)
qed

lemma mergeOrPush_inv:
  assumes "one_per_instrument (positions s)"
    "\<forall>q\<in>set (positions s). instId q = pi_instId p \<longrightarrow> side q = pi_side p"
  shows "one_per_instrument (positions (mergeOrPush now p s))"
proof (cases "findIndex (\<lambda>q. instId q = pi_instId p \<and> side q = pi_side p) (positions s)")
  case None
  then have "pi_instId p \<notin> instId ` set (positions s)"
    using assms(2) by (auto simp: findIndex_None)
  with None assms(1) show ?thesis
    by (simp add: mergeOrPush_def one_per_instrument_def newPosition_def)
next
  case (Some i)
  from findIndex_Some [OF Some] have i: "i < length (positions s)" by auto
  have "map instId ((positions s)[i := (positions s ! i)\<lparr>pos_size := a, entryPrice := b, leverage := c\<rparr>])
        = map instId (positions s)" for a b c
    using i by (simp add: map_update list_update_same_conv)
  with Some assms(1) show ?thesis
    by (simp add: mergeOrPush_def one_per_instrument_def Let_def)
qed

lemma addPosition_inv:
  "one_per_instrument (positions s) \<Longrightarrow> one_per_instrument (positions (snd (addPosition now p s)))"
  using closeOpposite_inv closeOpposite_no_opposite mergeOrPush_inv
  by (metis addPosition_def snd_conv)

lemma closePosition_inv:
  "one_per_instrument (positions s) \<Longrightarrow> one_per_instrument (positions (snd (closePosition now pid s)))"
  by (auto simp: closePosition_def one_per_instrument_def Let_def distinct_splice1
           split: option.splits)

lemma map_instId_refresh:
  "map instId (map (\<lambda>pos. if instId pos = i then pos\<lparr>currentPrice := pr\<rparr> else pos) ps)
     = map instId ps"
  by (induction ps) auto

lemma positions_updateMarketPrice:
  "positions (updateMarketPrice now i pr s)
     = map (\<lambda>pos. if instId pos = i then pos\<lparr>currentPrice := pr\<rparr> else pos) (positions s)"
  by (simp add: updateMarketPrice_def)

lemma updateMarketPrice_inv:
  "one_per_instrument (positions s) \<Longrightarrow> one_per_instrument (positions (updateMarketPrice now i pr s))"
  unfolding one_per_instrument_def positions_updateMarketPrice map_instId_refresh .

lemma apply_op_inv:
  "one_per_instrument (positions s) \<Longrightarrow> one_per_instrument (positions (apply_op s x))"
  by (cases x) (simp_all add: addPosition_inv closePosition_inv updateMarketPrice_inv
      clearPositions_def one_per_instrument_def [of "[]"])

lemma run_ops_inv:
  "one_per_instrument (positions s) \<Longrightarrow> one_per_instrument (positions (run_ops s ops))"
  unfolding run_ops_def
  by (induction ops arbitrary: s) (simp_all add: apply_op_inv)

lemma filter_splice1:
  "i < length xs \<Longrightarrow> \<not> P (xs ! i) \<Longrightarrow> filter P (splice1 i xs) = filter P xs"
proof -
  assume i: "i < length xs" and n: "\<not> P (xs ! i)"
  have "filter P xs = filter P (take i xs @ (xs ! i) # drop (Suc i) xs)"
    using i by (simp add: id_take_nth_drop [symmetric])
  with n show ?thesis by (simp add: splice1_def)
qed

lemma filter_closeOpposite:
  "filter (\<lambda>q. instId q = pi_instId p \<and> side q = pi_side p) (positions (closeOpposite now p s))
   = filter (\<lambda>q. instId q = pi_instId p \<and> side q = pi_side p) (positions s)"
proof (cases "findIndex (\<lambda>q. instId q = pi_instId p \<and> side q \<noteq> pi_side p) (positions s)")
  case None
  then show ?thesis by (simp add: closeOpposite_def)
next
  case (Some i)
  from findIndex_Some [OF Some] Some show ?thesis
    by (simp add: closeOpposite_def Let_def filter_splice1)
qed

lemma filter_list_update_single:
  assumes "filter P xs = [x]" "j < length xs" "P (xs ! j)" "P y"
  shows "filter P (xs[j := y]) = [y]"
proof -
  have xs: "xs = take j xs @ (xs ! j) # drop (Suc j) xs"
    using assms(2) by (simp add: id_take_nth_drop [symmetric])
  have "filter P (take j xs) @ (xs ! j) # filter P (drop (Suc j) xs) = [x]"
    using assms(1,3) xs by (metis filter.simps(2) filter_append)
  then have e: "filter P (take j xs) = []" "filter P (drop (Suc j) xs) = []"
    by (simp_all add: append_eq_Cons_conv)
  have "xs[j := y] = take j xs @ y # drop (Suc j) xs"
    using assms(2) by (simp add: upd_conv_take_nth_drop)
  then show ?thesis using e assms(4) by simp
qed

lemma mergeOrPush_open:
  assumes "filter (\<lambda>q. instId q = pi_instId p \<and> side q = pi_side p) (positions s) = []"
  shows "positions (mergeOrPush now p s) = positions s @ [newPosition now p]"
proof -
  have "findIndex (\<lambda>q. instId q = pi_instId p \<and> side q = pi_side p) (positions s) = None"
    using assms by (simp add: findIndex_None filter_empty_conv)
  then show ?thesis by (simp add: mergeOrPush_def)
qed

lemma mergeOrPush_merge:
  assumes "filter (\<lambda>q. instId q = pi_instId p \<and> side q = pi_side p) (positions s) = [x]"
  shows "filter (\<lambda>q. instId q = pi_instId p \<and> side q = pi_side p) (positions (mergeOrPush now p s))
         = [x\<lparr>pos_size := fadd (pos_size x) (pi_size p),
                entryPrice := fdiv (fadd (fmul (entryPrice x) (pos_size x))
                                         (fmul (pi_price p) (pi_size p)))
                                   (fadd (pos_size x) (pi_size p)),
              leverage := or_one (pi_leverage p)\<rparr>]"
proof -
  let ?P = "\<lambda>q. instId q = pi_instId p \<and> side q = pi_side p"
  have "x \<in> set (filter ?P (positions s))"
    using assms by simp
  then have x: "x \<in> set (positions s)" "?P x"
    by simp_all
  then have "findIndex ?P (positions s) \<noteq> None"
    by (auto simp: findIndex_None)
  then obtain j where j: "findIndex ?P (positions s) = Some j" by auto
  from findIndex_Some [OF j] have jl: "j < length (positions s)" and jp: "?P (positions s ! j)"
    by auto
  have "positions s ! j \<in> set (filter ?P (positions s))"
    using jl jp by simp
  then have jx: "positions s ! j = x" using assms by simp
  let ?y = "x\<lparr>pos_size := fadd (pos_size x) (pi_size p),
                entryPrice := fdiv (fadd (fmul (entryPrice x) (pos_size x))
                                         (fmul (pi_price p) (pi_size p)))
                                   (fadd (pos_size x) (pi_size p)),
              leverage := or_one (pi_leverage p)\<rparr>"
  have "positions (mergeOrPush now p s) = (positions s)[j := ?y]"
    using j jx by (simp add: mergeOrPush_def Let_def)
  moreover have "?P ?y" using x by simp
  ultimately show ?thesis
    using filter_list_update_single [OF assms jl jp, of ?y] by simp
qed

lemma inv_unique:
  "one_per_instrument ps \<Longrightarrow> p \<in> set ps \<Longrightarrow> q \<in> set ps \<Longrightarrow> instId p = instId q \<Longrightarrow> p = q"
  by (auto simp: one_per_instrument_def distinct_map inj_on_def)

lemma inv_distinct: "one_per_instrument ps \<Longrightarrow> distinct ps"
  by (simp add: one_per_instrument_def distinct_map)

lemma const_distinct_short:
  "distinct (map f xs) \<Longrightarrow> \<forall>x\<in>set xs. f x = c \<Longrightarrow> length xs \<le> 1"
  by (cases xs; cases "tl xs") auto

lemma inv_filter_le1:
  assumes "one_per_instrument ps"
  shows "length (filter (\<lambda>p. instId p = i \<and> side p = sd) ps) \<le> 1"
proof -
  have "distinct (map instId (filter (\<lambda>p. instId p = i \<and> side p = sd) ps))"
    using assms by (simp add: one_per_instrument_def distinct_map_filter)
  then show ?thesis
    by (rule const_distinct_short [where c = i]) simp
qed

lemma splice1_remove1:
  assumes "distinct xs" "i < length xs"
  shows "splice1 i xs = remove1 (xs ! i) xs"
proof -
  have xs: "xs = take i xs @ (xs ! i) # drop (Suc i) xs"
    using assms(2) by (simp add: id_take_nth_drop [symmetric])
  have "distinct (take i xs @ (xs ! i) # drop (Suc i) xs)"
    using assms(1) xs by simp
  then have "xs ! i \<notin> set (take i xs)" by auto
  then have "remove1 (xs ! i) (take i xs @ (xs ! i) # drop (Suc i) xs)
             = take i xs @ drop (Suc i) xs"
    by (simp add: remove1_append)
  with xs show ?thesis by (simp add: splice1_def)
qed

lemma addPosition_same_side:
  assumes inv: "one_per_instrument (positions s)"
    and q: "q \<in> set (positions s)" "instId q = pi_instId p" "side q = pi_side p"
  shows "\<exists>i<length (positions s). positions s ! i = q \<and>
           positions (snd (addPosition now p s)) =
             (positions s)[i := q\<lparr>pos_size := fadd (pos_size q) (pi_size p),
                entryPrice := fdiv (fadd (fmul (entryPrice q) (pos_size q))
                                         (fmul (pi_price p) (pi_size p)))
                                   (fadd (pos_size q) (pi_size p)),
                leverage := or_one (pi_leverage p)\<rparr>]"
proof -
  have "findIndex (\<lambda>r. instId r = pi_instId p \<and> side r \<noteq> pi_side p) (positions s) = None"
    using inv_unique [OF inv _ q(1)] q(2,3) by (auto simp: findIndex_None)
  then have c: "closeOpposite now p s = s"
    by (simp add: closeOpposite_def)
  have "findIndex (\<lambda>r. instId r = pi_instId p \<and> side r = pi_side p) (positions s) \<noteq> None"
    using q by (auto simp: findIndex_None)
  then obtain i where i: "findIndex (\<lambda>r. instId r = pi_instId p \<and> side r = pi_side p) (positions s) = Some i"
    by auto
  from findIndex_Some [OF i] have il: "i < length (positions s)"
    and ip: "instId (positions s ! i) = pi_instId p" by auto
  have iq: "positions s ! i = q"
    using inv_unique [OF inv _ q(1), of "positions s ! i"] il ip q(2) by simp
  show ?thesis
    using i il iq by (auto simp: addPosition_def c mergeOrPush_def Let_def)
qed

lemma addPosition_opposite_side:
  assumes inv: "one_per_instrument (positions s)"
    and q: "q \<in> set (positions s)" "instId q = pi_instId p" "side q \<noteq> pi_side p"
  shows "positions (snd (addPosition now p s)) = remove1 q (positions s) @ [newPosition now p]
         \<and> q \<notin> set (positions (snd (addPosition now p s)))"
proof -
  let ?O = "\<lambda>r. instId r = pi_instId p \<and> side r \<noteq> pi_side p"
  have "findIndex ?O (positions s) \<noteq> None"
    using q by (auto simp: findIndex_None)
  then obtain i where i: "findIndex ?O (positions s) = Some i" by auto
  from findIndex_Some [OF i] have il: "i < length (positions s)"
    and ip: "instId (positions s ! i) = pi_instId p" by auto
  have iq: "positions s ! i = q"
    using inv_unique [OF inv _ q(1), of "positions s ! i"] il ip q(2) by simp
  have c: "positions (closeOpposite now p s) = remove1 q (positions s)"
    using i iq splice1_remove1 [OF inv_distinct [OF inv] il]
    by (simp add: closeOpposite_def Let_def)
  have "pi_instId p \<notin> instId ` set (splice1 i (positions s))"
    using splice1_removes [of instId "positions s" i] inv il ip
    by (simp add: one_per_instrument_def)
  then have "pi_instId p \<notin> instId ` set (remove1 q (positions s))"
    using splice1_remove1 [OF inv_distinct [OF inv] il] iq by simp
  then have "filter (\<lambda>r. instId r = pi_instId p \<and> side r = pi_side p)
               (positions (closeOpposite now p s)) = []"
    unfolding c by (force simp: filter_empty_conv)
  then have m: "positions (snd (addPosition now p s)) = remove1 q (positions s) @ [newPosition now p]"
    by (simp add: addPosition_def mergeOrPush_open c)
  have "q \<notin> set (remove1 q (positions s))"
    using inv_distinct [OF inv] by simp
  moreover have "q \<noteq> newPosition now p"
    using q(3) by (auto simp: newPosition_def)
  ultimately show ?thesis using m by simp
qed

subsection \<open>Activity log\<close>

text \<open>C8: after any run of log appends from a log within capacity, the log holds at most
  \<open>maxLogs\<close> entries: it is the newest \<open>maxLogs\<close> entries, newest first, so an append beyond
  capacity drops the oldest entry and the entry just appended is at the front. The
  capacity of the initial state is 100 and its log is empty.\<close>

theorem log_capacity:
  assumes "length (logs s) \<le> maxLogs s"
  shows "length (logs (run_logs s es)) \<le> maxLogs s
       \<and> logs (run_logs s es) = take (maxLogs s) (rev (map entry_of es) @ logs s)
       \<and> (0 < maxLogs s \<and> es \<noteq> [] \<longrightarrow> hd (logs (run_logs s es)) = entry_of (last es))
       \<and> maxLogs (initialState cfg) = 100 \<and> logs (initialState cfg) = []"
proof -
  have t: "logs (run_logs s es) = take (maxLogs s) (rev (map entry_of es) @ logs s)"
    using assms by (rule run_logs_take)
  have h: "hd (logs (run_logs s es)) = entry_of (last es)" if m: "0 < maxLogs s" and ne: "es \<noteq> []"
  proof -
    obtain es' e where es: "es = es' @ [e]" using ne by (meson rev_exhaust)
    have "logs (run_logs s es) = take (maxLogs s) (entry_of e # rev (map entry_of es') @ logs s)"
      unfolding t by (simp add: es)
    then show ?thesis using m by (cases "maxLogs s") (simp_all add: es)
  qed
  show ?thesis using t h by (simp add: initialState_def)
qed

theorem log_capacity_witness:
  "length (logs ((initialState defaultConfig)\<lparr>maxLogs := 2\<rparr>))
     \<le> maxLogs ((initialState defaultConfig)\<lparr>maxLogs := 2\<rparr>)
   \<and> logs (run_logs ((initialState defaultConfig)\<lparr>maxLogs := 2\<rparr>)
        [(1, [Str ''a''], ''info''), (2, [Str ''b''], ''trade''), (3, [Str ''c''], ''error'')])
     = [\<lparr>timestamp = 3, message = [Str ''c''], log_type = ''error''\<rparr>,
        \<lparr>timestamp = 2, message = [Str ''b''], log_type = ''trade''\<rparr>]"
  using log_capacity [of "(initialState defaultConfig)\<lparr>maxLogs := 2\<rparr>"
      "[(1, [Str ''a''], ''info''), (2, [Str ''b''], ''trade''), (3, [Str ''c''], ''error'')]"]
  by (simp add: initialState_def entry_of_def)

subsection \<open>Open positions\<close>

text \<open>C10: \<open>closePosition\<close> with an id that no open position carries returns \<open>null\<close> and
  leaves the whole state as it was: the positions keep their elements and order and no log
  entry is appended.\<close>

theorem closePosition_unknown_id:
  "\<forall>p\<in>set (positions s). pos_id p \<noteq> pid \<Longrightarrow> closePosition now pid s = (None, s)"
  by (simp add: closePosition_def findIndex_None [THEN iffD2])

theorem closePosition_unknown_id_witness:
  "closePosition 5 ''nope''
     (snd (addPosition 1 \<lparr>pi_instId = ''BTC-USDT'', pi_side = ''buy'', pi_size = 10, pi_price = 100,
             pi_orderId = Some ''o1'', pi_mode = Some ''demo'', pi_leverage = Some 2\<rparr>
        (initialState defaultConfig)))
   = (None, snd (addPosition 1 \<lparr>pi_instId = ''BTC-USDT'', pi_side = ''buy'', pi_size = 10, pi_price = 100,
             pi_orderId = Some ''o1'', pi_mode = Some ''demo'', pi_leverage = Some 2\<rparr>
        (initialState defaultConfig)))"
  by (rule closePosition_unknown_id)
     (simp add: addPosition_def closeOpposite_def mergeOrPush_def initialState_def
        newPosition_def or_string_def)

text \<open>C1: in every state reached from an empty positions collection by \<open>addPosition\<close>,
  \<open>closePosition\<close>, \<open>clearPositions\<close> and \<open>updateMarketPrice\<close>, no instrument has both a
  buy-side and a sell-side position, and each pair of an instrument and a side has at most
  one position. In such a state \<open>addPosition\<close> on the side of an open position of the
  instrument updates that position in place (sizes added, entry price averaged), and
  \<open>addPosition\<close> on another side removes the open position of the instrument and appends
  the new one.\<close>

theorem positions_one_per_instrument:
  assumes "positions s0 = []"
  shows "(\<forall>p\<in>set (positions (run_ops s0 ops)). \<forall>q\<in>set (positions (run_ops s0 ops)).
            instId p = instId q \<longrightarrow> \<not> (side p = ''buy'' \<and> side q = ''sell''))
       \<and> (\<forall>i sd. length (filter (\<lambda>p. instId p = i \<and> side p = sd)
                            (positions (run_ops s0 ops))) \<le> 1)
       \<and> (\<forall>q\<in>set (positions (run_ops s0 ops)).
            instId q = pi_instId f \<and> side q = pi_side f \<longrightarrow>
            (\<exists>i<length (positions (run_ops s0 ops)). positions (run_ops s0 ops) ! i = q \<and>
               positions (snd (addPosition now f (run_ops s0 ops))) =
                 (positions (run_ops s0 ops))
                   [i := q\<lparr>pos_size := fadd (pos_size q) (pi_size f),
                     entryPrice := fdiv (fadd (fmul (entryPrice q) (pos_size q))
                                              (fmul (pi_price f) (pi_size f)))
                                        (fadd (pos_size q) (pi_size f)),
                     leverage := or_one (pi_leverage f)\<rparr>]))
       \<and> (\<forall>q\<in>set (positions (run_ops s0 ops)).
            instId q = pi_instId f \<and> side q \<noteq> pi_side f \<longrightarrow>
            positions (snd (addPosition now f (run_ops s0 ops))) =
              remove1 q (positions (run_ops s0 ops)) @ [newPosition now f]
            \<and> q \<notin> set (positions (snd (addPosition now f (run_ops s0 ops)))))"
proof -
  have inv: "one_per_instrument (positions (run_ops s0 ops))"
    using assms by (intro run_ops_inv) (simp add: one_per_instrument_def)
  have a: "\<forall>p\<in>set (positions (run_ops s0 ops)). \<forall>q\<in>set (positions (run_ops s0 ops)).
            instId p = instId q \<longrightarrow> \<not> (side p = ''buy'' \<and> side q = ''sell'')"
    using inv_unique [OF inv] by fastforce
  have b: "\<forall>i sd. length (filter (\<lambda>p. instId p = i \<and> side p = sd)
                            (positions (run_ops s0 ops))) \<le> 1"
    using inv_filter_le1 [OF inv] by blast
  show ?thesis
    using a b addPosition_same_side [OF inv, of _ f now]
      addPosition_opposite_side [OF inv, of _ f now]
    by blast
qed

theorem positions_one_per_instrument_witness:
  "positions (initialState defaultConfig) = []
   \<and> positions (run_ops (initialState defaultConfig)
        [AddPosition 1 \<lparr>pi_instId = ''BTC-USDT'', pi_side = ''buy'', pi_size = 10, pi_price = 100,
            pi_orderId = Some ''o1'', pi_mode = Some ''demo'', pi_leverage = Some 1\<rparr>,
         AddPosition 2 \<lparr>pi_instId = ''BTC-USDT'', pi_side = ''sell'', pi_size = 10, pi_price = 90,
            pi_orderId = Some ''o2'', pi_mode = Some ''demo'', pi_leverage = Some 1\<rparr>])
     = [\<lparr>pos_id = ''o2'', instId = ''BTC-USDT'', side = ''sell'', pos_size = 10, leverage = 1,
       entryPrice = 90, currentPrice = 90, pos_timestamp = 2, orderId = Some ''o2'',
       mode = ''demo''\<rparr>]
   \<and> length (filter (\<lambda>p. instId p = ''BTC-USDT'' \<and> side p = ''sell'')
        (positions (run_ops (initialState defaultConfig)
        [AddPosition 1 \<lparr>pi_instId = ''BTC-USDT'', pi_side = ''buy'', pi_size = 10, pi_price = 100,
            pi_orderId = Some ''o1'', pi_mode = Some ''demo'', pi_leverage = Some 1\<rparr>,
         AddPosition 2 \<lparr>pi_instId = ''BTC-USDT'', pi_side = ''sell'', pi_size = 10, pi_price = 90,
            pi_orderId = Some ''o2'', pi_mode = Some ''demo'', pi_leverage = Some 1\<rparr>]))) \<le> 1"
  using positions_one_per_instrument [of "initialState defaultConfig"
        "[AddPosition 1 \<lparr>pi_instId = ''BTC-USDT'', pi_side = ''buy'', pi_size = 10, pi_price = 100,
            pi_orderId = Some ''o1'', pi_mode = Some ''demo'', pi_leverage = Some 1\<rparr>,
         AddPosition 2 \<lparr>pi_instId = ''BTC-USDT'', pi_side = ''sell'', pi_size = 10, pi_price = 90,
            pi_orderId = Some ''o2'', pi_mode = Some ''demo'', pi_leverage = Some 1\<rparr>]"]
  by (simp add: run_ops_def addPosition_def closeOpposite_def mergeOrPush_def initialState_def
        newPosition_def or_string_def or_one_def Let_def splice1_def)

text \<open>C7, as amended: two successive fills on the same instrument and side, with positive sizes
  \<open>s1\<close>, \<open>s2\<close> and prices \<open>p1\<close>, \<open>p2\<close>, the first of which opens the position (no position of
  that instrument and side is open before it), leave exactly one position of that instrument
  and side; its size is \<open>s1 + s2\<close> and its entry price is \<open>(p1 * s1 + p2 * s2) / (s1 + s2)\<close>,
  each operation rounded to the nearest double. Fills of 10 at 100 and 10 at 200 give size
  20 and entry price 150.\<close>

theorem two_fills_merge:
  assumes "\<forall>q\<in>set (positions s). \<not> (instId q = X \<and> side q = sd)"
    and "pi_instId f1 = X" "pi_side f1 = sd" "pi_size f1 = s1" "pi_price f1 = p1"
    and "pi_instId f2 = X" "pi_side f2 = sd" "pi_size f2 = s2" "pi_price f2 = p2"
    and "0 < s1" "0 < s2"
  shows "\<exists>r. filter (\<lambda>q. instId q = X \<and> side q = sd)
               (positions (snd (addPosition t2 f2 (snd (addPosition t1 f1 s))))) = [r]
             \<and> pos_size r = fadd s1 s2
             \<and> entryPrice r = fdiv (fadd (fmul p1 s1) (fmul p2 s2)) (fadd s1 s2)"
proof -
  let ?P = "\<lambda>q. instId q = X \<and> side q = sd"
  have P1: "?P = (\<lambda>q. instId q = pi_instId f1 \<and> side q = pi_side f1)"
    and P2: "?P = (\<lambda>q. instId q = pi_instId f2 \<and> side q = pi_side f2)"
    using assms by simp_all
  let ?sa = "snd (addPosition t1 f1 s)"
  have e0: "filter ?P (positions s) = []"
    using assms(1) by (simp add: filter_empty_conv)
  then have "filter ?P (positions (closeOpposite t1 f1 s)) = []"
    unfolding P1 by (simp only: filter_closeOpposite)
  then have "positions ?sa = positions (closeOpposite t1 f1 s) @ [newPosition t1 f1]"
    and "filter ?P (positions (closeOpposite t1 f1 s)) = []"
    unfolding P1 by (simp_all add: addPosition_def mergeOrPush_open)
  then have "filter ?P (positions ?sa) = [newPosition t1 f1]"
    using assms(2,3) by (simp add: newPosition_def)
  then have "filter ?P (positions (closeOpposite t2 f2 ?sa)) = [newPosition t1 f1]"
    unfolding P2 by (simp only: filter_closeOpposite)
  from mergeOrPush_merge [OF this [unfolded P2], of t2]
  show ?thesis
    unfolding P2 [symmetric] using assms
    by (simp add: addPosition_def newPosition_def)
qed

theorem two_fills_merge_witness:
  "filter (\<lambda>q. instId q = ''BTC-USDT'' \<and> side q = ''buy'')
     (positions (snd (addPosition 2
        \<lparr>pi_instId = ''BTC-USDT'', pi_side = ''buy'', pi_size = 10, pi_price = 200,
          pi_orderId = Some ''o2'', pi_mode = Some ''demo'', pi_leverage = Some 1\<rparr>
        (snd (addPosition 1
          \<lparr>pi_instId = ''BTC-USDT'', pi_side = ''buy'', pi_size = 10, pi_price = 100,
            pi_orderId = Some ''o1'', pi_mode = Some ''demo'', pi_leverage = Some 1\<rparr>
          (initialState defaultConfig))))))
   = [\<lparr>pos_id = ''o1'', instId = ''BTC-USDT'', side = ''buy'', pos_size = 20, leverage = 1,
       entryPrice = 150, currentPrice = 100, pos_timestamp = 1, orderId = Some ''o1'',
       mode = ''demo''\<rparr>]"
  using two_fills_merge [of "initialState defaultConfig" "''BTC-USDT''" "''buy''"
      "\<lparr>pi_instId = ''BTC-USDT'', pi_side = ''buy'', pi_size = 10, pi_price = 100,
            pi_orderId = Some ''o1'', pi_mode = Some ''demo'', pi_leverage = Some 1\<rparr>"
      10 100
      "\<lparr>pi_instId = ''BTC-USDT'', pi_side = ''buy'', pi_size = 10, pi_price = 200,
          pi_orderId = Some ''o2'', pi_mode = Some ''demo'', pi_leverage = Some 1\<rparr>"
      10 200 2 1]
  by (simp add: addPosition_def closeOpposite_def mergeOrPush_def initialState_def
        newPosition_def or_string_def or_one_def Let_def fadd_def fmul_def fdiv_def)

text \<open>C7 as stated fails: with a position of 5 at 50 already open on that instrument and
  side, two further fills of 10 at 100 and 10 at 200 leave one position of size 25 and entry
  price 130, not of size 20 and entry price 150. And from no open position, fills of 1 at 1
  and 2 at 2 leave the entry price 7505999378950827 / 4503599627370496 (the double nearest
  to 5 / 3), not the weighted average 5 / 3.\<close>

theorem two_fills_counterexample:
  "positions (snd (addPosition 3
      \<lparr>pi_instId = ''BTC-USDT'', pi_side = ''buy'', pi_size = 10, pi_price = 200,
        pi_orderId = Some ''o3'', pi_mode = Some ''demo'', pi_leverage = Some 1\<rparr>
      (snd (addPosition 2
        \<lparr>pi_instId = ''BTC-USDT'', pi_side = ''buy'', pi_size = 10, pi_price = 100,
          pi_orderId = Some ''o2'', pi_mode = Some ''demo'', pi_leverage = Some 1\<rparr>
        (snd (addPosition 1
          \<lparr>pi_instId = ''BTC-USDT'', pi_side = ''buy'', pi_size = 5, pi_price = 50,
            pi_orderId = Some ''o1'', pi_mode = Some ''demo'', pi_leverage = Some 1\<rparr>
          (initialState defaultConfig)))))))
   = [\<lparr>pos_id = ''o1'', instId = ''BTC-USDT'', side = ''buy'', pos_size = 25, leverage = 1,
       entryPrice = 130, currentPrice = 50, pos_timestamp = 1, orderId = Some ''o1'',
       mode = ''demo''\<rparr>]
   \<and> positions (snd (addPosition 2
        \<lparr>pi_instId = ''BTC-USDT'', pi_side = ''buy'', pi_size = 2, pi_price = 2,
          pi_orderId = Some ''o2'', pi_mode = Some ''demo'', pi_leverage = Some 1\<rparr>
        (snd (addPosition 1
          \<lparr>pi_instId = ''BTC-USDT'', pi_side = ''buy'', pi_size = 1, pi_price = 1,
            pi_orderId = Some ''o1'', pi_mode = Some ''demo'', pi_leverage = Some 1\<rparr>
          (initialState defaultConfig)))))
   = [\<lparr>pos_id = ''o1'', instId = ''BTC-USDT'', side = ''buy'', pos_size = 3, leverage = 1,
       entryPrice = 7505999378950827 / 4503599627370496, currentPrice = 1, pos_timestamp = 1,
       orderId = Some ''o1'', mode = ''demo''\<rparr>]
   \<and> (7505999378950827 / 4503599627370496 :: real) \<noteq> (1 * 1 + 2 * 2) / (1 + 2)"
proof -
  have a: "fmul 50 5 = 250" "fmul 100 10 = 1000" "fmul 200 10 = 2000" "fadd 250 1000 = 1250"
    "fadd 5 10 = 15" "fadd 15 10 = 25" "fadd 1250 2000 = 3250" "fdiv 3250 25 = 130"
    "fmul 1 1 = 1" "fmul 2 2 = 4" "fadd 1 4 = 5" "fadd 1 2 = 3"
    by (simp_all add: fadd_def fmul_def fdiv_def)
  show ?thesis
    by (simp add: addPosition_def closeOpposite_def mergeOrPush_def initialState_def
        newPosition_def or_string_def or_one_def Let_def a merge_ops)
qed

subsection \<open>Signal generation\<close>

lemma length_SMA_gen:
  "1 \<le> c \<Longrightarrow> c \<le> p \<Longrightarrow> length lst = c \<Longrightarrow>
   length (SMA_gen p c sum_v lst xs) = length xs + c - p"
proof (induction xs arbitrary: c sum_v lst)
  case Nil
  then show ?case by simp
next
  case (Cons x xs)
  show ?case
  proof (cases "c < p")
    case True
    with Cons.prems Cons.IH [of "Suc c" "lst @ [x]" "fadd sum_v x"] show ?thesis by simp
  next
    case False
    with Cons.prems have cp: "c = p" by simp
    with Cons.prems obtain y ys where l: "lst = y # ys" by (cases lst) auto
    with Cons.prems Cons.IH [of c "ys @ [x]" "fadd (fsub sum_v y) x"] cp show ?thesis
      by (simp add: Let_def)
  qed
qed

lemma length_calculateSMA: "1 \<le> n \<Longrightarrow> length (calculateSMA ps n) = Suc (length ps) - n"
  by (simp add: calculateSMA_def length_SMA_gen)

lemma analyzeMarket_sufficient:
  assumes len: "23 \<le> length ps"
  shows "an_signal (analyzeMarket (Some ps))
           = crossover_rule (next_to_last (calculateSMA ps 9)) (next_to_last (calculateSMA ps 21))
               (last (calculateSMA ps 9)) (last (calculateSMA ps 21))
       \<and> an_fastMA (analyzeMarket (Some ps)) = Some (round2 (last (calculateSMA ps 9)))
       \<and> an_slowMA (analyzeMarket (Some ps)) = Some (round2 (last (calculateSMA ps 21)))"
proof -
  have l9: "length (calculateSMA ps 9) = length ps - 8"
    and l21: "length (calculateSMA ps 21) = length ps - 20"
    by (simp_all add: length_calculateSMA)
  have n9: "calculateSMA ps 9 \<noteq> []" and n21: "calculateSMA ps 21 \<noteq> []"
    using len l9 l21 by auto
  have f: "js_index (calculateSMA ps 9) (int (length (calculateSMA ps 9)) - 1)
             = Some (last (calculateSMA ps 9))"
       "js_index (calculateSMA ps 9) (int (length (calculateSMA ps 9)) - 2)
             = Some (next_to_last (calculateSMA ps 9))"
       "js_index (calculateSMA ps 21) (int (length (calculateSMA ps 21)) - 1)
             = Some (last (calculateSMA ps 21))"
       "js_index (calculateSMA ps 21) (int (length (calculateSMA ps 21)) - 2)
             = Some (next_to_last (calculateSMA ps 21))"
    using len n9 n21
    by (simp_all add: js_index_def l9 l21 next_to_last_def last_conv_nth nat_diff_distrib')
  show ?thesis
    using len
    by (simp add: analyzeMarket_def FAST_MA_PERIOD_def SLOW_MA_PERIOD_def f Let_def
          js_le_def js_less_def crossover_rule_def)
qed

lemma falling_fast: "calculateSMA falling_closes 9
    = [119, 118, 117, 116, 115, 114, 113, 112, 111, 110, 109, 108, 107, 106, 105]"
  unfolding falling_closes_def calculateSMA_def
  by (simp add: fadd_def fsub_def fdiv_def eval_nat_numeral)

lemma falling_slow: "calculateSMA falling_closes 21 = [113, 112, 111]"
  unfolding falling_closes_def calculateSMA_def
  by (simp add: fadd_def fsub_def fdiv_def eval_nat_numeral)

lemma rising_fast: "calculateSMA rising_closes 9
    = [105, 106, 107, 108, 109, 110, 111, 112, 113, 114, 115, 116, 117, 118, 119]"
  unfolding rising_closes_def calculateSMA_def
  by (simp add: fadd_def fsub_def fdiv_def eval_nat_numeral)

lemma rising_slow: "calculateSMA rising_closes 21 = [111, 112, 113]"
  unfolding rising_closes_def calculateSMA_def
  by (simp add: fadd_def fsub_def fdiv_def eval_nat_numeral)


lemma flat_op_0: "fadd 0 (3602879701896397 / 36028797018963968) = 3602879701896397 / 36028797018963968"
  by (simp add: fadd_def fl_eval [where k = "-4"] round_even_def power_int_minus)

lemma flat_op_1: "fadd (3602879701896397 / 36028797018963968) (3602879701896397 / 36028797018963968) = 3602879701896397 / 18014398509481984"
  by (simp add: fadd_def fl_eval [where k = "-3"] round_even_def power_int_minus)

lemma flat_op_2: "fadd (3602879701896397 / 18014398509481984) (3602879701896397 / 36028797018963968) = 1351079888211149 / 4503599627370496"
  by (simp add: fadd_def fl_eval [where k = "-2"] round_even_def power_int_minus)

lemma flat_op_3: "fadd (1351079888211149 / 4503599627370496) (3602879701896397 / 36028797018963968) = 3602879701896397 / 9007199254740992"
  by (simp add: fadd_def fl_eval [where k = "-2"] round_even_def power_int_minus)

lemma flat_op_4: "fadd (3602879701896397 / 9007199254740992) (3602879701896397 / 36028797018963968) = 1 / 2"
  by (simp add: fadd_def fl_eval [where k = "-1"] round_even_def power_int_minus)

lemma flat_op_5: "fadd (1 / 2) (3602879701896397 / 36028797018963968) = 5404319552844595 / 9007199254740992"
  by (simp add: fadd_def fl_eval [where k = "-1"] round_even_def power_int_minus)

lemma flat_op_6: "fadd (5404319552844595 / 9007199254740992) (3602879701896397 / 36028797018963968) = 3152519739159347 / 4503599627370496"
  by (simp add: fadd_def fl_eval [where k = "-1"] round_even_def power_int_minus)

lemma flat_op_7: "fadd (3152519739159347 / 4503599627370496) (3602879701896397 / 36028797018963968) = 7205759403792793 / 9007199254740992"
  by (simp add: fadd_def fl_eval [where k = "-1"] round_even_def power_int_minus)

lemma flat_op_8: "fsub (7205759403792793 / 9007199254740992) 0 = 7205759403792793 / 9007199254740992"
  by (simp add: fsub_def fl_eval [where k = "-1"] round_even_def power_int_minus)

lemma flat_op_9: "fadd (7205759403792793 / 9007199254740992) (3602879701896397 / 36028797018963968) = 2026619832316723 / 2251799813685248"
  by (simp add: fadd_def fl_eval [where k = "-1"] round_even_def power_int_minus)

lemma flat_op_10: "fdiv (2026619832316723 / 2251799813685248) 9 = 7205759403792793 / 72057594037927936"
  by (simp add: fdiv_def fl_eval [where k = "-4"] round_even_def power_int_minus)

lemma flat_op_11: "fsub (2026619832316723 / 2251799813685248) (3602879701896397 / 36028797018963968) = 7205759403792793 / 9007199254740992"
  by (simp add: fsub_def fl_eval [where k = "-1"] round_even_def power_int_minus)

lemma flat_op_12: "fadd (2026619832316723 / 2251799813685248) (3602879701896397 / 36028797018963968) = 9007199254740991 / 9007199254740992"
  by (simp add: fadd_def fl_eval [where k = "-1"] round_even_def power_int_minus)

lemma flat_op_13: "fadd (9007199254740991 / 9007199254740992) (3602879701896397 / 36028797018963968) = 4953959590107545 / 4503599627370496"
  by (simp add: fadd_def fl_eval [where k = "0"] round_even_def power_int_minus)

lemma flat_op_14: "fadd (4953959590107545 / 4503599627370496) (3602879701896397 / 36028797018963968) = 5404319552844595 / 4503599627370496"
  by (simp add: fadd_def fl_eval [where k = "0"] round_even_def power_int_minus)

lemma flat_op_15: "fadd (5404319552844595 / 4503599627370496) (3602879701896397 / 36028797018963968) = 5854679515581645 / 4503599627370496"
  by (simp add: fadd_def fl_eval [where k = "0"] round_even_def power_int_minus)

lemma flat_op_16: "fadd (5854679515581645 / 4503599627370496) (3602879701896397 / 36028797018963968) = 6305039478318695 / 4503599627370496"
  by (simp add: fadd_def fl_eval [where k = "0"] round_even_def power_int_minus)

lemma flat_op_17: "fadd (6305039478318695 / 4503599627370496) (3602879701896397 / 36028797018963968) = 6755399441055745 / 4503599627370496"
  by (simp add: fadd_def fl_eval [where k = "0"] round_even_def power_int_minus)

lemma flat_op_18: "fadd (6755399441055745 / 4503599627370496) (3602879701896397 / 36028797018963968) = 7205759403792795 / 4503599627370496"
  by (simp add: fadd_def fl_eval [where k = "0"] round_even_def power_int_minus)

lemma flat_op_19: "fadd (7205759403792795 / 4503599627370496) (3602879701896397 / 36028797018963968) = 7656119366529845 / 4503599627370496"
  by (simp add: fadd_def fl_eval [where k = "0"] round_even_def power_int_minus)

lemma flat_op_20: "fadd (7656119366529845 / 4503599627370496) (3602879701896397 / 36028797018963968) = 8106479329266895 / 4503599627370496"
  by (simp add: fadd_def fl_eval [where k = "0"] round_even_def power_int_minus)

lemma flat_op_21: "fadd (8106479329266895 / 4503599627370496) (3602879701896397 / 36028797018963968) = 8556839292003945 / 4503599627370496"
  by (simp add: fadd_def fl_eval [where k = "0"] round_even_def power_int_minus)

lemma flat_op_22: "fadd (8556839292003945 / 4503599627370496) (3602879701896397 / 36028797018963968) = 4503599627370497 / 2251799813685248"
  by (simp add: fadd_def fl_eval [where k = "1"] round_even_def power_int_minus)

lemma flat_op_23: "fsub (4503599627370497 / 2251799813685248) 0 = 4503599627370497 / 2251799813685248"
  by (simp add: fsub_def fl_eval [where k = "1"] round_even_def power_int_minus)

lemma flat_op_24: "fadd (4503599627370497 / 2251799813685248) (3602879701896397 / 36028797018963968) = 2364389804369511 / 1125899906842624"
  by (simp add: fadd_def fl_eval [where k = "1"] round_even_def power_int_minus)

lemma flat_op_25: "fdiv (2364389804369511 / 1125899906842624) 21 = 7205759403792795 / 72057594037927936"
  by (simp add: fdiv_def fl_eval [where k = "-4"] round_even_def power_int_minus)

lemma flat_op_26: "fsub (2364389804369511 / 1125899906842624) (3602879701896397 / 36028797018963968) = 4503599627370497 / 2251799813685248"
  by (simp add: fsub_def fl_eval [where k = "1"] round_even_def power_int_minus)

lemmas flat_ops = flat_op_0 flat_op_1 flat_op_2 flat_op_3 flat_op_4 flat_op_5 flat_op_6 flat_op_7 flat_op_8 flat_op_9 flat_op_10 flat_op_11 flat_op_12 flat_op_13 flat_op_14 flat_op_15 flat_op_16 flat_op_17 flat_op_18 flat_op_19 flat_op_20 flat_op_21 flat_op_22 flat_op_23 flat_op_24 flat_op_25 flat_op_26

lemma flat_list: "flat_tenth = [3602879701896397 / 36028797018963968, 3602879701896397 / 36028797018963968, 3602879701896397 / 36028797018963968, 3602879701896397 / 36028797018963968, 3602879701896397 / 36028797018963968, 3602879701896397 / 36028797018963968, 3602879701896397 / 36028797018963968, 3602879701896397 / 36028797018963968, 3602879701896397 / 36028797018963968, 3602879701896397 / 36028797018963968, 3602879701896397 / 36028797018963968, 3602879701896397 / 36028797018963968, 3602879701896397 / 36028797018963968, 3602879701896397 / 36028797018963968, 3602879701896397 / 36028797018963968, 3602879701896397 / 36028797018963968, 3602879701896397 / 36028797018963968, 3602879701896397 / 36028797018963968, 3602879701896397 / 36028797018963968, 3602879701896397 / 36028797018963968, 3602879701896397 / 36028797018963968, 3602879701896397 / 36028797018963968, 3602879701896397 / 36028797018963968]"
  by (simp add: flat_tenth_def eval_nat_numeral)

lemma flat_fast: "calculateSMA flat_tenth 9 = replicate 15 (7205759403792793 / 72057594037927936)"
  unfolding flat_list calculateSMA_def
  by (simp add: flat_ops eval_nat_numeral)

lemma flat_slow: "calculateSMA flat_tenth 21 = replicate 3 (7205759403792795 / 72057594037927936)"
  unfolding flat_list calculateSMA_def
  by (simp add: flat_ops eval_nat_numeral)

lemma flat_code_sell: "an_signal (analyzeMarket (Some flat_tenth)) = SELL"
proof -
  have "length flat_tenth = 23" by (simp add: flat_tenth_def)
  then show ?thesis
    by (simp add: analyzeMarket_def SLOW_MA_PERIOD_def FAST_MA_PERIOD_def flat_fast flat_slow
          Let_def js_index_def js_le_def js_less_def)
qed

lemma flat_spec_wait: "spec_signal flat_tenth = WAIT"
  unfolding flat_list
  by (simp add: spec_signal_def crossover_rule_def trailing_mean_def mean_def)

lemma step_op_0: "fdiv 10 9 = 2501999792983609 / 2251799813685248"
  by (simp add: fdiv_def fl_eval [where k = "0"] round_even_def power_int_minus)

lemma step_op_1: "fdiv 11 9 = 1376099886140985 / 1125899906842624"
  by (simp add: fdiv_def fl_eval [where k = "0"] round_even_def power_int_minus)

lemma step_op_2: "fdiv 12 9 = 6004799503160661 / 4503599627370496"
  by (simp add: fdiv_def fl_eval [where k = "0"] round_even_def power_int_minus)

lemma step_op_3: "fdiv 13 9 = 6505199461757383 / 4503599627370496"
  by (simp add: fdiv_def fl_eval [where k = "0"] round_even_def power_int_minus)

lemma step_op_4: "fdiv 14 9 = 7005599420354105 / 4503599627370496"
  by (simp add: fdiv_def fl_eval [where k = "0"] round_even_def power_int_minus)

lemma step_op_5: "fdiv 15 9 = 7505999378950827 / 4503599627370496"
  by (simp add: fdiv_def fl_eval [where k = "0"] round_even_def power_int_minus)

lemma step_op_6: "fdiv 16 9 = 2001599834386887 / 1125899906842624"
  by (simp add: fdiv_def fl_eval [where k = "0"] round_even_def power_int_minus)

lemma step_op_7: "fdiv 17 9 = 4253399648072135 / 2251799813685248"
  by (simp add: fdiv_def fl_eval [where k = "0"] round_even_def power_int_minus)

lemma step_op_8: "fdiv 32 21 = 857828500451523 / 562949953421312"
  by (simp add: fdiv_def fl_eval [where k = "0"] round_even_def power_int_minus)

lemma step_op_9: "fdiv 33 21 = 7077085128725065 / 4503599627370496"
  by (simp add: fdiv_def fl_eval [where k = "0"] round_even_def power_int_minus)

lemma step_op_10: "fdiv 34 21 = 3645771126918973 / 2251799813685248"
  by (simp add: fdiv_def fl_eval [where k = "0"] round_even_def power_int_minus)

lemmas step_ops = step_op_0 step_op_1 step_op_2 step_op_3 step_op_4 step_op_5 step_op_6 step_op_7 step_op_8 step_op_9 step_op_10

lemma step_div_int: "fdiv 9 9 = 1" "fdiv 18 9 = 2"
  by (simp_all add: fdiv_def)

lemma step_fast: "calculateSMA step_series 9
    = [1, 1, 2501999792983609 / 2251799813685248, 1376099886140985 / 1125899906842624,
       6004799503160661 / 4503599627370496, 6505199461757383 / 4503599627370496,
       7005599420354105 / 4503599627370496, 7505999378950827 / 4503599627370496,
       2001599834386887 / 1125899906842624, 4253399648072135 / 2251799813685248,
       2, 2, 2, 2, 2]"
  unfolding step_series_def calculateSMA_def
  by (simp add: step_ops step_div_int fadd_def fsub_def eval_nat_numeral)

lemma step_slow: "calculateSMA step_series 21
    = [857828500451523 / 562949953421312, 7077085128725065 / 4503599627370496,
       3645771126918973 / 2251799813685248]"
  unfolding step_series_def calculateSMA_def
  by (simp add: step_ops step_div_int fadd_def fsub_def eval_nat_numeral)

lemma round2_119: "round2 119 = 119"
  by (simp add: round2_def fmul_def fdiv_def js_round_def)

lemma round2_113: "round2 113 = 113"
  by (simp add: round2_def fmul_def fdiv_def js_round_def)

text \<open>C3, as amended: when the list of closing prices is missing or has fewer than 23
  entries, \<open>analyzeMarket\<close> returns \<open>WAIT\<close> with a reason and with both averages \<open>null\<close>.
  Otherwise \<open>SMA.calculate\<close> returns one value for each window of 9 and of 21 prices, and the
  signal follows the rule of the specification on the last and the next-to-last of those
  values, unrounded: \<open>BUY\<close> on a bullish crossover, else \<open>BUY\<close> when the fast value is above
  the slow one, else \<open>SELL\<close> on a bearish crossover, else \<open>SELL\<close> when the fast value is below,
  else \<open>WAIT\<close>. The values are running sums of the window in double arithmetic divided by the
  period, not the exact arithmetic means. The reported averages are the last values rounded
  to two decimals.\<close>

theorem analyzeMarket_signal:
  "(cp = None \<or> (\<exists>ps. cp = Some ps \<and> length ps < 23) \<longrightarrow>
      an_signal (analyzeMarket cp) = WAIT \<and> an_reason (analyzeMarket cp) \<noteq> []
      \<and> an_fastMA (analyzeMarket cp) = None \<and> an_slowMA (analyzeMarket cp) = None)
   \<and> (\<forall>ps. cp = Some ps \<and> 23 \<le> length ps \<longrightarrow>
      length (calculateSMA ps 9) = length ps - 8
      \<and> length (calculateSMA ps 21) = length ps - 20
      \<and> an_signal (analyzeMarket cp)
          = crossover_rule (next_to_last (calculateSMA ps 9)) (next_to_last (calculateSMA ps 21))
              (last (calculateSMA ps 9)) (last (calculateSMA ps 21))
      \<and> an_fastMA (analyzeMarket cp) = Some (round2 (last (calculateSMA ps 9)))
      \<and> an_slowMA (analyzeMarket cp) = Some (round2 (last (calculateSMA ps 21))))"
  using analyzeMarket_sufficient
  by (auto simp: analyzeMarket_def SLOW_MA_PERIOD_def length_calculateSMA)

theorem analyzeMarket_signal_witness:
  "an_signal (analyzeMarket (Some rising_closes)) = BUY
   \<and> an_fastMA (analyzeMarket (Some rising_closes)) = Some 119
   \<and> an_slowMA (analyzeMarket (Some rising_closes)) = Some 113
   \<and> an_signal (analyzeMarket (Some falling_closes)) = SELL
   \<and> an_signal (analyzeMarket (Some step_series)) = BUY
   \<and> an_signal (analyzeMarket (Some [1, 2, 3])) = WAIT
   \<and> an_fastMA (analyzeMarket (Some [1, 2, 3])) = None
   \<and> an_signal (analyzeMarket None) = WAIT"
proof -
  have l: "23 \<le> length rising_closes" "23 \<le> length falling_closes" "23 \<le> length step_series"
    by (simp_all add: rising_closes_def falling_closes_def step_series_def)
  show ?thesis
    using analyzeMarket_signal [of "Some rising_closes"] analyzeMarket_signal [of "Some falling_closes"]
      analyzeMarket_signal [of "Some step_series"] analyzeMarket_signal [of "Some [1, 2, 3]"]
      analyzeMarket_signal [of None] l
    by (simp add: rising_fast rising_slow falling_fast falling_slow step_fast step_slow
          crossover_rule_def next_to_last_def round2_119 round2_113)
qed

text \<open>C3 as stated fails: on 23 prices that all equal the double written \<open>0.1\<close> the exact
  means of the trailing 9 and 21 prices are equal, so the rule gives \<open>WAIT\<close>, while the
  averages of the code are \<open>0.09999999999999999\<close> and \<open>0.10000000000000002\<close> and its signal
  is \<open>SELL\<close>.\<close>

theorem analyzeMarket_signal_counterexample:
  "an_signal (analyzeMarket (Some flat_tenth)) = SELL \<and> spec_signal flat_tenth = WAIT"
  by (simp add: flat_code_sell flat_spec_wait)

subsection \<open>Per-instrument pipeline\<close>

lemma addLog_fields [simp]:
  "pairState (addLog now msg ty s) = pairState s"
  "lastTradeTime (addLog now msg ty s) = lastTradeTime s"
  "lastPosition (addLog now msg ty s) = lastPosition s"
  "lastTrade (addLog now msg ty s) = lastTrade s"
  "pairCooldownSeconds (addLog now msg ty s) = pairCooldownSeconds s"
  "tradeConfig (addLog now msg ty s) = tradeConfig s"
  by (simp_all add: addLog_def Let_def)

lemma hd_logs_addLog:
  "0 < maxLogs s \<Longrightarrow>
   hd (logs (addLog now msg ty s)) = \<lparr>timestamp = now, message = msg, log_type = ty\<rparr>"
  by (cases "maxLogs s") (simp_all add: addLog_def Let_def)

lemma pairLast_addLog [simp]:
  "pairLastTradeTime (addLog now msg ty s) i = pairLastTradeTime s i"
  "pairLastPosition (addLog now msg ty s) i = pairLastPosition s i"
  by (simp_all add: pairLastTradeTime_def pairLastPosition_def)

lemma observed_fields:
  "pairLastTradeTime (observed i env tk an s) j = pairLastTradeTime s j"
  "pairLastPosition (observed i env tk an s) j = pairLastPosition s j"
  "lastTradeTime (observed i env tk an s) = lastTradeTime s"
  "lastPosition (observed i env tk an s) = lastPosition s"
  "lastTrade (observed i env tk an s) = lastTrade s"
  "maxLogs (observed i env tk an s) = maxLogs s"
  "logs (observed i env tk an s) = logs s"
  "pairCooldownSeconds (observed i env tk an s) = pairCooldownSeconds s"
  "tradeConfig (observed i env tk an s) = tradeConfig s"
  "positions (observed i env tk an s)
     = map (\<lambda>pos. if instId pos = i then pos\<lparr>currentPrice := tk_last tk\<rparr> else pos) (positions s)"
  by (simp_all add: observed_def getPairState_def setPairSignal_def updateMarketPrice_def
        pairLastTradeTime_def pairLastPosition_def Let_def split: option.splits)

lemma observed_decision:
  "ps_lastPosition (fst (getPairState i (setPairSignal i sig (updateMarketPrice now i p s))))
     = pairLastPosition s i"
  by (simp add: getPairState_def setPairSignal_def updateMarketPrice_def
        pairLastPosition_def Let_def split: option.splits)

lemma prepareTrade_alt:
  "prepareTrade i env s =
     (if isPairInCooldown (t_start env) i s then
        Done \<lparr>r_instId = i, r_executed = False,
               r_reason = Some [Str ''Cooldown '',
                                Num (getPairCooldownRemaining (t_start env) i s), Str ''s''],
               r_signal = None, r_mode = None, r_side = None, r_price = None,
               r_orderId = None\<rparr> [] s
      else
        case ticker_reply env of
          Inl e \<Rightarrow> (case pairCatch (t_data env) i e [GetTicker i] s of (r, c, s') \<Rightarrow> Done r c s')
        | Inr tk \<Rightarrow>
           (case candles_reply env of
              Inl e \<Rightarrow>
                (case pairCatch (t_data env) i e
                        [GetTicker i, GetCandles i CANDLE_TIMEFRAME CANDLE_LIMIT] s of
                   (r, c, s') \<Rightarrow> Done r c s')
            | Inr candles \<Rightarrow>
                let calls = [GetTicker i, GetCandles i CANDLE_TIMEFRAME CANDLE_LIMIT];
                    an = analyzeMarket (Some (map close candles));
                    s3 = observed i env tk an s;
                    tradeDecision = shouldTrade (an_signal an) (pairLastPosition s i)
                in if \<not> shouldTrade_flag tradeDecision then
                     Done \<lparr>r_instId = i, r_executed = False,
                            r_reason = Some [Str (td_reason tradeDecision)],
                            r_signal = Some (an_signal an), r_mode = None, r_side = None,
                            r_price = None, r_orderId = None\<rparr> calls s3
                   else
                     case td_side tradeDecision of
                          None \<Rightarrow>
                            (case pairCatch (t_data env) i
                                    (Error ''Cannot read properties of undefined'') calls s3 of
                               (r, c, s') \<Rightarrow> Done r c s')
                        | Some sd \<Rightarrow>
                            Submit sd (tradeSize (tradeConfig s)) (tc_leverage (tradeConfig s)) tk an
                              (calls @ [PlaceMarketOrder i sd (tradeSize (tradeConfig s))
                                          (tc_leverage (tradeConfig s))])
                              (addLog (t_data env)
                                 [Str ''['', Str i, Str ''] '', Str (toUpperCase sd), Str '' @ $'',
                                  Num (tk_last tk), Str '' - '', Num (tradeSize (tradeConfig s)),
                                  Str '' USDT @ '', Num (tc_leverage (tradeConfig s)), Str ''x'']
                                 ''trade'' s3)))"
  unfolding prepareTrade_def
  by (simp add: Let_def case_prod_beta observed_decision observed_def
        getTradeConfig_def observed_fields [unfolded observed_def]
      split: sum.splits)

lemma prepareTrade_Submit:
  "prepareTrade i env s = Submit sd sz lev tk an calls s4 \<longleftrightarrow>
     \<not> isPairInCooldown (t_start env) i s
     \<and> ticker_reply env = Inr tk
     \<and> (\<exists>cs. candles_reply env = Inr cs \<and> an = analyzeMarket (Some (map close cs)))
     \<and> shouldTrade_flag (shouldTrade (an_signal an) (pairLastPosition s i))
     \<and> td_side (shouldTrade (an_signal an) (pairLastPosition s i)) = Some sd
     \<and> sz = tradeSize (tradeConfig s) \<and> lev = tc_leverage (tradeConfig s)
     \<and> calls = [GetTicker i, GetCandles i CANDLE_TIMEFRAME CANDLE_LIMIT,
                 PlaceMarketOrder i sd sz lev]
     \<and> s4 = addLog (t_data env)
              [Str ''['', Str i, Str ''] '', Str (toUpperCase sd), Str '' @ $'',
               Num (tk_last tk), Str '' - '', Num sz, Str '' USDT @ '', Num lev, Str ''x'']
              ''trade'' (observed i env tk an s)"
  unfolding prepareTrade_alt pairCatch_def
  by (auto simp: Let_def split: sum.splits option.splits)

lemma prepareTrade_Done_calls:
  "prepareTrade i env s = Done r calls s' \<Longrightarrow> PlaceMarketOrder j sd sz lev \<notin> set calls"
  unfolding prepareTrade_alt pairCatch_def
  by (auto simp: Let_def split: sum.splits option.splits if_splits)

lemma prepareTrade_Done_result:
  "prepareTrade i env s = Done r calls s' \<Longrightarrow> r_instId r = i \<and> \<not> r_executed r"
  unfolding prepareTrade_alt pairCatch_def
  by (auto simp: Let_def split: sum.splits option.splits if_splits)

lemma closeOpposite_fields [simp]:
  "pairState (closeOpposite now p s) = pairState s"
  "pairCooldownSeconds (closeOpposite now p s) = pairCooldownSeconds s"
  by (simp_all add: closeOpposite_def Let_def split: option.splits)

lemma mergeOrPush_fields [simp]:
  "pairState (mergeOrPush now p s) = pairState s"
  "pairCooldownSeconds (mergeOrPush now p s) = pairCooldownSeconds s"
  by (simp_all add: mergeOrPush_def Let_def split: option.splits)

lemma settleTrade_result:
  "r_executed (fst (settleTrade i env sd sz lev tk ord calls s))"
  "r_instId (fst (settleTrade i env sd sz lev tk ord calls s)) = i"
  by (simp_all add: settleTrade_def Let_def)

lemma settleTrade_state:
  "pairLastTradeTime (snd (snd (settleTrade i env sd sz lev tk ord calls s))) i = Some (t_order env)"
  "pairCooldownSeconds (snd (snd (settleTrade i env sd sz lev tk ord calls s))) = pairCooldownSeconds s"
  by (simp_all add: settleTrade_def Let_def addPosition_def recordTrade_def updatePairState_def
        pairLastTradeTime_def)

lemma executed_iff:
  "r_executed (fst (executePairTrade i env s)) \<longleftrightarrow>
     (\<exists>sd sz lev tk an calls s4 ord.
        prepareTrade i env s = Submit sd sz lev tk an calls s4 \<and> order_reply env = Inr ord)"
  by (auto simp: executePairTrade_def pairCatch_def settleTrade_result
           dest: prepareTrade_Done_result split: prepared.splits sum.splits)

lemma executePairTrade_instId: "r_instId (fst (executePairTrade i env s)) = i"
  by (auto simp: executePairTrade_def pairCatch_def settleTrade_result
           dest: prepareTrade_Done_result split: prepared.splits sum.splits)

lemma executed_replies:
  "r_executed (fst (executePairTrade i env s)) \<Longrightarrow>
   \<not> isl (ticker_reply env) \<and> \<not> isl (candles_reply env) \<and> \<not> isl (order_reply env)"
  by (auto simp: executed_iff prepareTrade_Submit)

lemma cooldown_blocks:
  assumes "pairLastTradeTime s i = Some t" "t \<noteq> 0" "pairCooldownSeconds s = 30"
    "t_start env - t < 30000"
  shows "executePairTrade i env s =
           (\<lparr>r_instId = i, r_executed = False,
             r_reason = Some [Str ''Cooldown '',
               Num (max 0 (js_round (30 - real_of_int (t_start env - t) / 1000))), Str ''s''],
             r_signal = None, r_mode = None, r_side = None, r_price = None, r_orderId = None\<rparr>,
            [], s)"
proof -
  obtain ps where ps: "pairState s i = Some ps" "ps_lastTradeTime ps = Some t"
    using assms(1) by (auto simp: pairLastTradeTime_def split: option.splits)
  have "real_of_int (t_start env - t) / 1000 < 30"
    using assms(4) by simp
  then have c: "isPairInCooldown (t_start env) i s"
    using ps assms(2,3) by (simp add: isPairInCooldown_def)
  have r: "getPairCooldownRemaining (t_start env) i s
           = max 0 (js_round (30 - real_of_int (t_start env - t) / 1000))"
    using ps assms(2,3) by (simp add: getPairCooldownRemaining_def)
  show ?thesis
    by (simp add: executePairTrade_def prepareTrade_def c r)
qed


lemma close_falling: "map close falling_candles = falling_closes"
  by (simp add: falling_candles_def falling_closes_def)

lemma close_rising: "map close rising_candles = rising_closes"
  by (simp add: rising_candles_def rising_closes_def)

lemma falling_signal: "an_signal (analyzeMarket (Some (map close falling_candles))) = SELL"
proof -
  have "23 \<le> length falling_closes" by (simp add: falling_closes_def)
  from analyzeMarket_sufficient [OF this] show ?thesis
    unfolding close_falling
    by (simp add: falling_fast falling_slow crossover_rule_def next_to_last_def)
qed

lemma rising_signal: "an_signal (analyzeMarket (Some (map close rising_candles))) = BUY"
proof -
  have "23 \<le> length rising_closes" by (simp add: rising_closes_def)
  from analyzeMarket_sufficient [OF this] show ?thesis
    unfolding close_rising
    by (simp add: rising_fast rising_slow crossover_rule_def next_to_last_def)
qed

lemma rejected_sell_submitted:
  "\<exists>tk an s4. prepareTrade ''BTC-USDT'' rejected_sell held_long
     = Submit ''sell'' 10 1 tk an
         [GetTicker ''BTC-USDT'', GetCandles ''BTC-USDT'' CANDLE_TIMEFRAME CANDLE_LIMIT,
          PlaceMarketOrder ''BTC-USDT'' ''sell'' 10 1] s4"
  unfolding prepareTrade_Submit
  by (simp add: rejected_sell_def held_long_def isPairInCooldown_def initialState_def
        defaultConfig_def falling_signal pairLastPosition_def shouldTrade_def)

lemma rejected_sell_calls:
  "PlaceMarketOrder ''BTC-USDT'' ''sell'' 10 1
     \<in> set (fst (snd (executePairTrade ''BTC-USDT'' rejected_sell held_long)))"
proof -
  obtain tk an s4 where p: "prepareTrade ''BTC-USDT'' rejected_sell held_long
     = Submit ''sell'' 10 1 tk an
         [GetTicker ''BTC-USDT'', GetCandles ''BTC-USDT'' CANDLE_TIMEFRAME CANDLE_LIMIT,
          PlaceMarketOrder ''BTC-USDT'' ''sell'' 10 1] s4"
    using rejected_sell_submitted by blast
  then show ?thesis
    by (simp add: executePairTrade_def pairCatch_def rejected_sell_def)
qed

lemma filled_buy_executed:
  "r_executed (fst (executePairTrade ''BTC-USDT'' filled_buy (initialState defaultConfig)))"
  unfolding executed_iff prepareTrade_Submit
  by (simp add: filled_buy_def isPairInCooldown_def initialState_def
        defaultConfig_def rising_signal pairLastPosition_def shouldTrade_def)


text \<open>C5: when a run of the pipeline for an instrument executes a trade, the instrument's
  \<open>lastTradeTime\<close> becomes the clock reading \<open>t\<close> taken after the order settled. From then on,
  in every state where that reading still stands, a run of the pipeline whose cooldown check
  reads the clock less than 30 seconds after \<open>t\<close> returns \<open>executed = false\<close> with the reason
  \<open>Cooldown <n>s\<close>, makes no call to the exchange and leaves the state as it is. Clock
  readings are positive.\<close>

theorem cooldown_after_trade:
  assumes "r_executed (fst (executePairTrade i env s))"
    and "pairCooldownSeconds s = 30" and "0 < t_order env"
  shows "pairLastTradeTime (snd (snd (executePairTrade i env s))) i = Some (t_order env)
       \<and> pairCooldownSeconds (snd (snd (executePairTrade i env s))) = 30
       \<and> (\<forall>env2 s2.
             pairLastTradeTime s2 i = Some (t_order env) \<and> pairCooldownSeconds s2 = 30
             \<and> t_start env2 - t_order env < 30000 \<longrightarrow>
             executePairTrade i env2 s2 =
               (\<lparr>r_instId = i, r_executed = False,
                 r_reason = Some [Str ''Cooldown '',
                   Num (max 0 (js_round (30 - real_of_int (t_start env2 - t_order env) / 1000))),
                   Str ''s''],
                 r_signal = None, r_mode = None, r_side = None, r_price = None,
                 r_orderId = None\<rparr>, [], s2))"
proof -
  from assms(1) obtain sd sz lev tk an calls s4 ord
    where p: "prepareTrade i env s = Submit sd sz lev tk an calls s4" "order_reply env = Inr ord"
    by (auto simp: executed_iff)
  then have e: "executePairTrade i env s = settleTrade i env sd sz lev tk ord calls s4"
    by (simp add: executePairTrade_def)
  have "pairCooldownSeconds s4 = 30"
    using p(1) assms(2) by (auto simp: prepareTrade_Submit observed_fields)
  then have a: "pairLastTradeTime (snd (snd (executePairTrade i env s))) i = Some (t_order env)"
    "pairCooldownSeconds (snd (snd (executePairTrade i env s))) = 30"
    unfolding e by (simp_all add: settleTrade_state)
  have "t_order env \<noteq> 0" using assms(3) by simp
  then show ?thesis
    using a cooldown_blocks [where t = "t_order env" and i = i] by blast
qed

theorem cooldown_after_trade_witness:
  "r_executed (fst (executePairTrade ''BTC-USDT'' filled_buy (initialState defaultConfig)))
   \<and> pairCooldownSeconds (initialState defaultConfig) = 30
   \<and> 0 < t_order filled_buy
   \<and> executePairTrade ''BTC-USDT'' (filled_buy\<lparr>t_start := 10000\<rparr>)
        (snd (snd (executePairTrade ''BTC-USDT'' filled_buy (initialState defaultConfig))))
      = (\<lparr>r_instId = ''BTC-USDT'', r_executed = False,
          r_reason = Some [Str ''Cooldown '', Num 23, Str ''s''],
          r_signal = None, r_mode = None, r_side = None, r_price = None, r_orderId = None\<rparr>,
         [],
         snd (snd (executePairTrade ''BTC-USDT'' filled_buy (initialState defaultConfig))))"
proof -
  have h2: "pairCooldownSeconds (initialState defaultConfig) = 30"
    by (simp add: initialState_def)
  have h3: "0 < t_order filled_buy"
    by (simp add: filled_buy_def)
  have t: "t_order filled_buy = 3000" by (simp add: filled_buy_def)
  have r: "max 0 (js_round (30 - real_of_int (10000 - 3000) / 1000)) = 23"
    by (simp add: js_round_def)
  from cooldown_after_trade [OF filled_buy_executed h2 h3]
  have a: "pairLastTradeTime (snd (snd (executePairTrade ''BTC-USDT'' filled_buy (initialState defaultConfig)))) ''BTC-USDT'' = Some (t_order filled_buy)"
    and b: "pairCooldownSeconds (snd (snd (executePairTrade ''BTC-USDT'' filled_buy (initialState defaultConfig)))) = 30"
    and c: "\<And>env2 s2.
             pairLastTradeTime s2 ''BTC-USDT'' = Some (t_order filled_buy) \<Longrightarrow> pairCooldownSeconds s2 = 30
             \<Longrightarrow> t_start env2 - t_order filled_buy < 30000 \<Longrightarrow>
             executePairTrade ''BTC-USDT'' env2 s2 =
               (\<lparr>r_instId = ''BTC-USDT'', r_executed = False,
                 r_reason = Some [Str ''Cooldown '',
                   Num (max 0 (js_round (30 - real_of_int (t_start env2 - t_order filled_buy) / 1000))),
                   Str ''s''],
                 r_signal = None, r_mode = None, r_side = None, r_price = None,
                 r_orderId = None\<rparr>, [], s2)"
    by blast+
  have "t_start (filled_buy\<lparr>t_start := 10000\<rparr>) - t_order filled_buy < 30000"
    by (simp add: t)
  from c [OF a b this] show ?thesis
    using filled_buy_executed h2 h3 r by (simp add: t)
qed


text \<open>C2, as amended: when the pipeline has submitted the order and the submission fails with
  an error, \<open>executePairTrade\<close> returns \<open>executed = false\<close> with the error's message as reason
  and puts an error entry at the front of the log; the calls made to the exchange are the
  ticker, the candles and that one order submission. The instrument's \<open>lastTradeTime\<close> and
  \<open>lastPosition\<close> and the global ones are as they were before the run. The positions
  collection holds the same positions in the same order as before the run, with only the
  \<open>currentPrice\<close> of this instrument's positions set to the ticker's last price, as the
  market-price update before the order leaves it.\<close>

theorem failed_order_state:
  assumes "PlaceMarketOrder i sd sz lev \<in> set (fst (snd (executePairTrade i env s)))"
    and "order_reply env = Inl e" and "0 < maxLogs s"
  shows "fst (snd (executePairTrade i env s))
           = [GetTicker i, GetCandles i CANDLE_TIMEFRAME CANDLE_LIMIT,
              PlaceMarketOrder i sd sz lev]
       \<and> r_instId (fst (executePairTrade i env s)) = i
       \<and> r_executed (fst (executePairTrade i env s)) = False
       \<and> r_reason (fst (executePairTrade i env s)) = Some [Str (error_message e)]
       \<and> hd (logs (snd (snd (executePairTrade i env s))))
           = \<lparr>timestamp = t_order env,
              message = [Str ''['', Str i, Str ''] Error: '', Str (error_message e)],
              log_type = ''error''\<rparr>
       \<and> pairLastTradeTime (snd (snd (executePairTrade i env s))) i = pairLastTradeTime s i
       \<and> pairLastPosition (snd (snd (executePairTrade i env s))) i = pairLastPosition s i
       \<and> lastTradeTime (snd (snd (executePairTrade i env s))) = lastTradeTime s
       \<and> lastPosition (snd (snd (executePairTrade i env s))) = lastPosition s
       \<and> (\<exists>tk. ticker_reply env = Inr tk
            \<and> positions (snd (snd (executePairTrade i env s)))
                = map (\<lambda>pos. if instId pos = i then pos\<lparr>currentPrice := tk_last tk\<rparr> else pos)
                      (positions s))"
proof -
  obtain sd' sz' lev' tk an calls s4
    where p: "prepareTrade i env s = Submit sd' sz' lev' tk an calls s4"
    using assms(1)
    by (cases "prepareTrade i env s")
       (auto simp: executePairTrade_def dest: prepareTrade_Done_calls)
  have e: "executePairTrade i env s = pairCatch (t_order env) i e calls s4"
    using p assms(2) by (simp add: executePairTrade_def)
  from p have tk: "ticker_reply env = Inr tk"
    and s4: "s4 = addLog (t_data env)
              [Str ''['', Str i, Str ''] '', Str (toUpperCase sd'), Str '' @ $'',
               Num (tk_last tk), Str '' - '', Num sz', Str '' USDT @ '', Num lev', Str ''x'']
              ''trade'' (observed i env tk an s)"
    by (simp_all add: prepareTrade_Submit)
  have "PlaceMarketOrder i sd sz lev \<in> set calls"
    using assms(1) by (simp add: e pairCatch_def)
  moreover have "calls = [GetTicker i, GetCandles i CANDLE_TIMEFRAME CANDLE_LIMIT,
                 PlaceMarketOrder i sd' sz' lev']"
    using p by (simp add: prepareTrade_Submit)
  ultimately have cs: "calls = [GetTicker i, GetCandles i CANDLE_TIMEFRAME CANDLE_LIMIT,
                 PlaceMarketOrder i sd sz lev]"
    by auto
  have m: "0 < maxLogs s4"
    using assms(3) by (simp add: s4 observed_fields)
  show ?thesis
    unfolding e pairCatch_def
    using tk hd_logs_addLog [OF m] cs by (simp add: s4 observed_fields)
qed


theorem failed_order_state_witness:
  "PlaceMarketOrder ''BTC-USDT'' ''sell'' 10 1
     \<in> set (fst (snd (executePairTrade ''BTC-USDT'' rejected_sell held_long)))
   \<and> order_reply rejected_sell = Inl (Error ''Order failed: rejected'')
   \<and> 0 < maxLogs held_long
   \<and> fst (snd (executePairTrade ''BTC-USDT'' rejected_sell held_long))
       = [GetTicker ''BTC-USDT'', GetCandles ''BTC-USDT'' ''1m'' 100,
          PlaceMarketOrder ''BTC-USDT'' ''sell'' 10 1]
   \<and> r_executed (fst (executePairTrade ''BTC-USDT'' rejected_sell held_long)) = False
   \<and> r_reason (fst (executePairTrade ''BTC-USDT'' rejected_sell held_long))
       = Some [Str ''Order failed: rejected'']
   \<and> log_type (hd (logs (snd (snd (executePairTrade ''BTC-USDT'' rejected_sell held_long)))))
       = ''error''
   \<and> pairLastTradeTime (snd (snd (executePairTrade ''BTC-USDT'' rejected_sell held_long)))
        ''BTC-USDT'' = Some 1000
   \<and> pairLastPosition (snd (snd (executePairTrade ''BTC-USDT'' rejected_sell held_long)))
        ''BTC-USDT'' = Some long
   \<and> positions (snd (snd (executePairTrade ''BTC-USDT'' rejected_sell held_long)))
       = [\<lparr>pos_id = ''o1'', instId = ''BTC-USDT'', side = ''buy'', pos_size = 10, leverage = 1,
           entryPrice = 100, currentPrice = 90, pos_timestamp = 1000, orderId = Some ''o1'',
           mode = ''demo''\<rparr>]"
proof -
  have h2: "order_reply rejected_sell = Inl (Error ''Order failed: rejected'')"
    by (simp add: rejected_sell_def)
  have h3: "0 < maxLogs held_long"
    by (simp add: held_long_def initialState_def)
  have tk: "ticker_reply rejected_sell = Inr tk \<Longrightarrow> tk_last tk = 90" for tk
    by (auto simp: rejected_sell_def)
  have l: "pairLastTradeTime held_long ''BTC-USDT'' = Some 1000"
    "pairLastPosition held_long ''BTC-USDT'' = Some long"
    by (simp_all add: held_long_def pairLastTradeTime_def pairLastPosition_def)
  have p: "positions held_long = [\<lparr>pos_id = ''o1'', instId = ''BTC-USDT'', side = ''buy'', pos_size = 10, leverage = 1,
           entryPrice = 100, currentPrice = 100, pos_timestamp = 1000, orderId = Some ''o1'',
           mode = ''demo''\<rparr>]"
    by (simp add: held_long_def)
  show ?thesis
    using failed_order_state [OF rejected_sell_calls h2 h3] rejected_sell_calls h2 h3 tk
    by (auto simp: l p CANDLE_TIMEFRAME_def CANDLE_LIMIT_def)
qed



text \<open>C2 as stated fails: with a long position on BTC-USDT whose \<open>currentPrice\<close> is 100, a
  \<open>SELL\<close> signal, a ticker at 90 and a rejected order, the positions collection after the run
  differs from the one before it.\<close>

theorem failed_order_counterexample:
  "PlaceMarketOrder ''BTC-USDT'' ''sell'' 10 1
     \<in> set (fst (snd (executePairTrade ''BTC-USDT'' rejected_sell held_long)))
   \<and> order_reply rejected_sell = Inl (Error ''Order failed: rejected'')
   \<and> positions (snd (snd (executePairTrade ''BTC-USDT'' rejected_sell held_long)))
       \<noteq> positions held_long"
proof -
  obtain tk an s4 where p: "prepareTrade ''BTC-USDT'' rejected_sell held_long
     = Submit ''sell'' 10 1 tk an
         [GetTicker ''BTC-USDT'', GetCandles ''BTC-USDT'' CANDLE_TIMEFRAME CANDLE_LIMIT,
          PlaceMarketOrder ''BTC-USDT'' ''sell'' 10 1] s4"
    using rejected_sell_submitted by blast
  have o: "order_reply rejected_sell = Inl (Error ''Order failed: rejected'')"
    by (simp add: rejected_sell_def)
  from p have "ticker_reply rejected_sell = Inr tk" 
    and s4: "positions s4 = map (\<lambda>pos. if instId pos = ''BTC-USDT'' then pos\<lparr>currentPrice := tk_last tk\<rparr> else pos)
                      (positions held_long)"
    by (simp_all add: prepareTrade_Submit observed_fields)
  then have "tk_last tk = 90" by (auto simp: rejected_sell_def)
  with s4 have "positions s4 \<noteq> positions held_long"
    by (simp add: held_long_def)
  then show ?thesis
    using p o by (simp add: executePairTrade_def pairCatch_def)
qed

subsection \<open>Trading cycle\<close>

lemma cycleLoop_results:
  "\<exists>rs' n' c' s'. cycleLoop run tc insts (rs, n, c, s) = (rs @ rs', n', c', s')
     \<and> list_all2 (\<lambda>i r. (\<exists>st. fst (run i st) = Inr r)
                       \<or> (r_instId r = i \<and> \<not> r_executed r \<and> (\<exists>st. isl (fst (run i st)))))
          insts rs'"
proof (induction insts arbitrary: rs n c s)
  case Nil
  then show ?case by simp
next
  case (Cons i rest)
  obtain x cc st' where run: "run i s = (x, cc, st')" by (cases "run i s") auto
  show ?case
  proof (cases x)
    case (Inr result)
    from Cons.IH [of "rs @ [result]" "if r_executed result then Suc n else n" "c @ cc" st']
    obtain rs' n' c' s' where
      "cycleLoop run tc rest (rs @ [result], if r_executed result then Suc n else n, c @ cc, st')
         = ((rs @ [result]) @ rs', n', c', s')"
      and l: "list_all2 (\<lambda>i r. (\<exists>st. fst (run i st) = Inr r)
                       \<or> (r_instId r = i \<and> \<not> r_executed r \<and> (\<exists>st. isl (fst (run i st)))))
          rest rs'"
      by blast
    then have "cycleLoop run tc (i # rest) (rs, n, c, s) = (rs @ (result # rs'), n', c', s')"
      using run Inr by simp
    moreover have "\<exists>st. fst (run i st) = Inr result"
      using run Inr by (metis fst_conv)
    ultimately show ?thesis using l by blast
  next
    case (Inl e)
    let ?f = "\<lparr>r_instId = i, r_executed = False,
                         r_reason = Some [Str (error_message e)], r_signal = None,
                         r_mode = None, r_side = None, r_price = None, r_orderId = None\<rparr>"
    from Cons.IH [of "rs @ [?f]" n "c @ cc"
        "addLog (tc i) [Str ''['', Str i, Str ''] Failed: '', Str (error_message e)] ''error'' st'"]
    obtain rs' n' c' s' where
      "cycleLoop run tc rest (rs @ [?f], n, c @ cc,
          addLog (tc i) [Str ''['', Str i, Str ''] Failed: '', Str (error_message e)] ''error'' st')
         = ((rs @ [?f]) @ rs', n', c', s')"
      and l: "list_all2 (\<lambda>i r. (\<exists>st. fst (run i st) = Inr r)
                       \<or> (r_instId r = i \<and> \<not> r_executed r \<and> (\<exists>st. isl (fst (run i st)))))
          rest rs'"
      by blast
    then have "cycleLoop run tc (i # rest) (rs, n, c, s) = (rs @ (?f # rs'), n', c', s')"
      using run Inl by simp
    moreover have "\<exists>st. isl (fst (run i st))"
      using run Inl by (metis fst_conv isl_def)
    ultimately show ?thesis using l by fastforce
  qed
qed

lemma tradingCycle_trades:
  assumes "configured env"
  shows "list_all2 (\<lambda>i r. (\<exists>st. fst (run i st) = Inr r)
                       \<or> (r_instId r = i \<and> \<not> r_executed r \<and> (\<exists>st. isl (fst (run i st)))))
          TRADING_PAIRS (trades (fst (tradingCycle run env s)))"
proof -
  let ?s0 = "addLog (t_begin env)
                 [Str ''Scanning '', Num (real (length TRADING_PAIRS)), Str '' pairs...''] ''info'' s"
  from cycleLoop_results [of run "t_catch env" TRADING_PAIRS "[]" 0 "[]" ?s0]
  obtain rs' n' c' s' where
    "cycleLoop run (t_catch env) TRADING_PAIRS ([], 0, [], ?s0) = (rs', n', c', s')"
    and l: "list_all2 (\<lambda>i r. (\<exists>st. fst (run i st) = Inr r)
                       \<or> (r_instId r = i \<and> \<not> r_executed r \<and> (\<exists>st. isl (fst (run i st)))))
          TRADING_PAIRS rs'"
    by auto
  then have "trades (fst (tradingCycle run env s)) = rs'"
    using assms by (simp add: tradingCycle_def Let_def)
  with l show ?thesis by simp
qed


lemma cycleLoop_prefix:
  "k < length rs \<Longrightarrow> fst (cycleLoop run tc insts (rs, n, c, s)) ! k = rs ! k"
  using cycleLoop_results [of run tc insts rs n c s] by (auto simp: nth_append)

lemma cycleLoop_second:
  assumes "run i s = (Inr r0, c0, s1)" and "run j s1 = (Inr r1, c1, s2)"
  shows "fst (cycleLoop run tc (i # j # rest) ([], n, c, s)) ! 1 = r1"
  using assms by (simp add: cycleLoop_prefix)

lemma trades_executeTradingCycle:
  "configured env \<Longrightarrow>
   trades (fst (executeTradingCycle env s))
     = fst (cycleLoop
         (\<lambda>i st. case executePairTrade i (pair_envs env i) st of (r, c, st') \<Rightarrow> (Inr r, c, st'))
         (t_catch env) TRADING_PAIRS
         ([], 0, [],
          addLog (t_begin env)
            [Str ''Scanning '', Num (real (length TRADING_PAIRS)), Str '' pairs...''] ''info'' s))"
  by (simp add: executeTradingCycle_def tradingCycle_def Let_def case_prod_beta)

lemma outage_second_result:
  "r_executed (trades (fst (executeTradingCycle outage_cycle (initialState defaultConfig))) ! 1)"
proof -
  let ?run = "\<lambda>i st. case executePairTrade i (pair_envs outage_cycle i) st of
                        (r, c, st') \<Rightarrow> (Inr r, c, st')"
  define s0 where "s0 = addLog (t_begin outage_cycle)
               [Str ''Scanning '', Num (real (length TRADING_PAIRS)), Str '' pairs...''] ''info''
               (initialState defaultConfig)"
  define btc where "btc = executePairTrade ''BTC-USDT'' (pair_envs outage_cycle ''BTC-USDT'') s0"
  define s1 where "s1 = snd (snd btc)"
  define eth where "eth = executePairTrade ''ETH-USDT'' (pair_envs outage_cycle ''ETH-USDT'') s1"
  have env0: "pair_envs outage_cycle ''BTC-USDT''
                = filled_buy\<lparr>ticker_reply := Inl (Error ''fetch failed'')\<rparr>"
    by (simp add: outage_cycle_def)
  have "btc = pairCatch (t_data filled_buy) ''BTC-USDT'' (Error ''fetch failed'')
                [GetTicker ''BTC-USDT''] s0"
    unfolding btc_def env0
    by (simp add: executePairTrade_def prepareTrade_alt s0_def isPairInCooldown_def
          initialState_def case_prod_beta)
  then have s1: "pairState s1 = Map.empty" "tradeConfig s1 = defaultConfig"
    by (simp_all add: s1_def pairCatch_def s0_def initialState_def)
  have env: "pair_envs outage_cycle ''ETH-USDT'' = filled_buy"
    by (simp add: outage_cycle_def)
  have e: "r_executed (fst eth)"
    unfolding eth_def env executed_iff prepareTrade_Submit
    by (simp add: filled_buy_def isPairInCooldown_def s1 rising_signal
          pairLastPosition_def shouldTrade_def)
  have r0: "?run ''BTC-USDT'' s0 = (Inr (fst btc), fst (snd btc), s1)"
    by (simp add: case_prod_beta btc_def s1_def)
  have r1: "?run ''ETH-USDT'' s1 = (Inr (fst eth), fst (snd eth), snd (snd eth))"
    by (simp add: case_prod_beta eth_def)
  have c: "configured outage_cycle" by (simp add: outage_cycle_def)
  have t: "trades (fst (executeTradingCycle outage_cycle (initialState defaultConfig)))
             = fst (cycleLoop ?run (t_catch outage_cycle) TRADING_PAIRS ([], 0, [], s0))"
    unfolding s0_def by (rule trades_executeTradingCycle [OF c])
  have tp: "TRADING_PAIRS = ''BTC-USDT'' # ''ETH-USDT'' # drop 2 TRADING_PAIRS"
    by (simp add: TRADING_PAIRS_def)
  have "fst (cycleLoop ?run (t_catch outage_cycle)
               (''BTC-USDT'' # ''ETH-USDT'' # drop 2 TRADING_PAIRS) ([], 0, [], s0)) ! 1 = fst eth"
    by (rule cycleLoop_second [OF r0 r1])
  then have "trades (fst (executeTradingCycle outage_cycle (initialState defaultConfig))) ! 1
               = fst eth"
    unfolding t using tp by simp
  with e show ?thesis by simp
qed


lemma executeTradingCycle_pairPipeline:
  "executeTradingCycle env s = tradingCycle (pairPipeline env) env s"
proof -
  have "(\<lambda>i st. case executePairTrade i (pair_envs env i) st of (r, c, st') \<Rightarrow> (Inr r, c, st'))
        = pairPipeline env"
    by (intro ext) (simp add: pairPipeline_def)
  then show ?thesis by (simp add: executeTradingCycle_def)
qed

lemma cycleLoop_step:
  "cycleLoop run tc (i # rest) (rs, n, c, s)
     = cycleLoop run tc rest
         (rs @ [turnResult run i s],
          (if r_executed (turnResult run i s) then Suc n else n),
          c @ fst (snd (run i s)), turnState run tc s i)"
  by (cases "run i s" rule: prod_cases3; cases "fst (run i s)")
     (auto simp: turnResult_def turnState_def)

lemma cycleLoop_length:
  "length (fst (cycleLoop run tc insts (rs, n, c, s))) = length rs + length insts"
proof (induction insts arbitrary: rs n c s)
  case Nil
  then show ?case by simp
next
  case (Cons i rest)
  show ?case unfolding cycleLoop_step by (simp add: Cons.IH)
qed

lemma cycleLoop_keeps:
  "k < length rs \<Longrightarrow> fst (cycleLoop run tc insts (rs, n, c, s)) ! k = rs ! k"
proof (induction insts arbitrary: rs n c s)
  case Nil
  then show ?case by simp
next
  case (Cons i rest)
  show ?case unfolding cycleLoop_step using Cons.prems by (simp add: Cons.IH nth_append)
qed

lemma cycleLoop_nth:
  "k < length insts \<Longrightarrow>
   fst (cycleLoop run tc insts (rs, n, c, s)) ! (length rs + k)
     = turnResult run (insts ! k) (stateBefore run tc s insts k)"
proof (induction insts arbitrary: rs n c s k)
  case Nil
  then show ?case by simp
next
  case (Cons i rest)
  show ?case
  proof (cases k)
    case 0
    then show ?thesis
      unfolding cycleLoop_step by (simp add: cycleLoop_keeps stateBefore_def)
  next
    case (Suc j)
    with Cons.prems have j: "j < length rest" by simp
    from Cons.IH [OF j, of "rs @ [turnResult run i s]"] show ?thesis
      unfolding cycleLoop_step by (simp add: Suc stateBefore_def)
  qed
qed

lemma tradingCycle_trades_eq:
  "configured env \<Longrightarrow>
   trades (fst (tradingCycle run env s))
     = fst (cycleLoop run (t_catch env) TRADING_PAIRS ([], 0, [], cycleStart env s))"
  by (simp add: tradingCycle_def Let_def case_prod_beta cycleStart_def)

lemma tradingCycle_nth:
  assumes "configured env" "k < length TRADING_PAIRS"
  shows "trades (fst (tradingCycle run env s)) ! k
           = turnResult run (TRADING_PAIRS ! k)
               (stateBefore run (t_catch env) (cycleStart env s) TRADING_PAIRS k)"
  using cycleLoop_nth [OF assms(2), of run "t_catch env" "[]" 0 "[]" "cycleStart env s"]
  by (simp add: tradingCycle_trades_eq [OF assms(1)])

lemma tradingCycle_length:
  "configured env \<Longrightarrow> length (trades (fst (tradingCycle run env s))) = length TRADING_PAIRS"
  by (simp add: tradingCycle_trades_eq cycleLoop_length)

lemma pair_turn:
  "turnResult (pairPipeline env) i st = fst (executePairTrade i (pair_envs env i) st)"
  "turnState (pairPipeline env) tc st i = snd (snd (executePairTrade i (pair_envs env i) st))"
  by (simp_all add: turnResult_def turnState_def pairPipeline_def case_prod_beta)

lemma pair_stateBefore:
  "stateBefore (pairPipeline env) tc (cycleStart env s) TRADING_PAIRS k = pairStateBefore env s k"
proof -
  have "turnState (pairPipeline env) tc
        = (\<lambda>st i. snd (snd (executePairTrade i (pair_envs env i) st)))"
    by (intro ext) (simp add: pair_turn)
  then show ?thesis by (simp add: stateBefore_def pairStateBefore_def)
qed

text \<open>C6: a cycle run with configured credentials reports exactly one result for each of the
  six instruments, in the order of \<open>TRADING_PAIRS\<close>. The result of each instrument is the one
  that \<open>executePairTrade\<close> returns for it in the state that the runs of all instruments before
  it have left, whatever those runs returned; an instrument whose ticker, candles or order
  call fails has \<open>executed = false\<close> in its result. The loop does the same for any pipeline:
  each turn records the pipeline's result in the state left by the turns before it, and when
  the pipeline of an instrument throws there, the loop records a result with
  \<open>executed = false\<close> for that instrument and goes on.\<close>

theorem cycle_isolation:
  assumes "configured env"
  shows "map r_instId (trades (fst (executeTradingCycle env s))) = TRADING_PAIRS
       \<and> length (trades (fst (executeTradingCycle env s))) = 6
       \<and> (\<forall>k<length TRADING_PAIRS.
            trades (fst (executeTradingCycle env s)) ! k
              = fst (executePairTrade (TRADING_PAIRS ! k) (pair_envs env (TRADING_PAIRS ! k))
                      (pairStateBefore env s k)))
       \<and> (\<forall>k<length TRADING_PAIRS.
            isl (ticker_reply (pair_envs env (TRADING_PAIRS ! k)))
            \<or> isl (candles_reply (pair_envs env (TRADING_PAIRS ! k)))
            \<or> isl (order_reply (pair_envs env (TRADING_PAIRS ! k)))
            \<longrightarrow> \<not> r_executed (trades (fst (executeTradingCycle env s)) ! k))
       \<and> (\<forall>run. length (trades (fst (tradingCycle run env s))) = 6
            \<and> (\<forall>k<length TRADING_PAIRS.
                 trades (fst (tradingCycle run env s)) ! k
                   = turnResult run (TRADING_PAIRS ! k)
                       (stateBefore run (t_catch env) (cycleStart env s) TRADING_PAIRS k))
            \<and> (\<forall>k<length TRADING_PAIRS.
                 isl (fst (run (TRADING_PAIRS ! k)
                        (stateBefore run (t_catch env) (cycleStart env s) TRADING_PAIRS k))) \<longrightarrow>
                 r_instId (trades (fst (tradingCycle run env s)) ! k) = TRADING_PAIRS ! k
                 \<and> \<not> r_executed (trades (fst (tradingCycle run env s)) ! k)))"
proof -
  let ?ts = "trades (fst (executeTradingCycle env s))"
  have len: "length ?ts = length TRADING_PAIRS"
    unfolding executeTradingCycle_pairPipeline by (rule tradingCycle_length [OF assms])
  have n: "?ts ! k = fst (executePairTrade (TRADING_PAIRS ! k) (pair_envs env (TRADING_PAIRS ! k))
                      (pairStateBefore env s k))"
    if "k < length TRADING_PAIRS" for k
    unfolding executeTradingCycle_pairPipeline tradingCycle_nth [OF assms that]
    by (simp add: pair_turn pair_stateBefore)
  have a: "map r_instId ?ts = TRADING_PAIRS"
  proof (rule nth_equalityI)
    show "length (map r_instId ?ts) = length TRADING_PAIRS" using len by simp
    fix k assume "k < length (map r_instId ?ts)"
    then have k: "k < length TRADING_PAIRS" using len by simp
    then show "map r_instId ?ts ! k = TRADING_PAIRS ! k"
      using len by (simp add: n executePairTrade_instId)
  qed
  have b: "\<not> r_executed (?ts ! k)"
    if k: "k < length TRADING_PAIRS"
      and f: "isl (ticker_reply (pair_envs env (TRADING_PAIRS ! k)))
            \<or> isl (candles_reply (pair_envs env (TRADING_PAIRS ! k)))
            \<or> isl (order_reply (pair_envs env (TRADING_PAIRS ! k)))" for k
    unfolding n [OF k]
    using f executed_replies [of "TRADING_PAIRS ! k" "pair_envs env (TRADING_PAIRS ! k)"
        "pairStateBefore env s k"]
    by auto
  have c: "r_instId (turnResult run i st) = i \<and> \<not> r_executed (turnResult run i st)"
    if "isl (fst (run i st))" for run :: pipeline and i st
    using that by (cases "run i st" rule: prod_cases3) (auto simp: turnResult_def isl_def)
  have len6: "length TRADING_PAIRS = 6" by (simp add: TRADING_PAIRS_def)
  show ?thesis
    using a b c n len len6 tradingCycle_length [OF assms] tradingCycle_nth [OF assms]
    by auto
qed

theorem cycle_isolation_witness:
  "configured outage_cycle
   \<and> map r_instId (trades (fst (executeTradingCycle outage_cycle (initialState defaultConfig))))
       = [''BTC-USDT'', ''ETH-USDT'', ''SOL-USDT'', ''XRP-USDT'', ''DOGE-USDT'', ''ADA-USDT'']
   \<and> length (trades (fst (executeTradingCycle outage_cycle (initialState defaultConfig)))) = 6
   \<and> isl (ticker_reply (pair_envs outage_cycle ''BTC-USDT''))
   \<and> r_executed (trades (fst (executeTradingCycle outage_cycle (initialState defaultConfig))) ! 0)
       = False
   \<and> r_executed (trades (fst (executeTradingCycle outage_cycle (initialState defaultConfig))) ! 1)
       = True"
proof -
  have h: "configured outage_cycle" by (simp add: outage_cycle_def)
  have i: "isl (ticker_reply (pair_envs outage_cycle ''BTC-USDT''))"
    by (simp add: outage_cycle_def)
  have k: "(0::nat) < length TRADING_PAIRS" "TRADING_PAIRS ! 0 = ''BTC-USDT''"
    by (simp_all add: TRADING_PAIRS_def)
  note t = cycle_isolation [OF h, of "initialState defaultConfig"]
  from t have a: "map r_instId (trades (fst (executeTradingCycle outage_cycle
                    (initialState defaultConfig)))) = TRADING_PAIRS"
    and b: "length (trades (fst (executeTradingCycle outage_cycle
                    (initialState defaultConfig)))) = 6"
    and c: "\<forall>k<length TRADING_PAIRS.
            isl (ticker_reply (pair_envs outage_cycle (TRADING_PAIRS ! k)))
            \<or> isl (candles_reply (pair_envs outage_cycle (TRADING_PAIRS ! k)))
            \<or> isl (order_reply (pair_envs outage_cycle (TRADING_PAIRS ! k)))
            \<longrightarrow> \<not> r_executed (trades (fst (executeTradingCycle outage_cycle
                    (initialState defaultConfig))) ! k)"
    by blast+
  from c k i have "\<not> r_executed (trades (fst (executeTradingCycle outage_cycle
                    (initialState defaultConfig))) ! 0)"
    by metis
  then show ?thesis
    using a b h i outage_second_result by (simp add: TRADING_PAIRS_def)
qed

subsection \<open>Settings route\<close>

lemma setTradeConfig_unread:
  "cu_tradeSize c = None \<Longrightarrow> cu_leverage c = None \<Longrightarrow> setTradeConfig now c s = (tradeConfig s, s)"
  by (simp add: setTradeConfig_def getTradeConfig_def)

lemma setTradeConfig_leverage_only:
  "cu_tradeSize c = None \<Longrightarrow>
   tradeSize (tradeConfig (snd (setTradeConfig now c s))) = tradeSize (tradeConfig s)"
  by (simp add: setTradeConfig_def getTradeConfig_def Let_def split: option.splits json.splits)

lemma settingsPOST_tradeSize:
  "tradeSize (tradeConfig (snd (snd (settingsPOST now body (dm, s))))) = tradeSize (tradeConfig s)"
  by (simp add: settingsPOST_def Let_def setTradeConfig_unread setTradeConfig_leverage_only
        case_prod_beta split: option.splits json.splits)

lemma settingsPOST_leverage:
  "b_leverage body = Some (JNum l) \<Longrightarrow>
   tc_leverage (tradeConfig (snd (snd (settingsPOST now body (dm, s)))))
     = min (max 1 l) (maxLeverage (tradeConfig s))"
  by (simp add: settingsPOST_def Let_def setTradeConfig_unread setTradeConfig_def is_number_def
        getTradeConfig_def case_prod_beta split: option.splits json.splits)


text \<open>C9: the settings handler forwards the margin under the key \<open>margin\<close>, which
  \<open>setTradeConfig\<close> does not read: a body with \<open>margin\<close> 50 or with \<open>tradeSize\<close> 50 leaves the
  stored trade size at 10, whereas \<open>setTradeConfig\<close> called with \<open>tradeSize\<close> 50 stores 50. A
  leverage of 500 is stored as 125.\<close>

theorem settings_margin_not_stored:
  "tradeSize (tradeConfig (snd (snd (settingsPOST 1
      \<lparr>b_demoMode = None, b_margin = Some (JNum 50), b_tradeSize = None, b_leverage = None\<rparr>
      (True, initialState defaultConfig))))) = 10
   \<and> tradeSize (tradeConfig (snd (snd (settingsPOST 1
      \<lparr>b_demoMode = None, b_margin = None, b_tradeSize = Some (JNum 50), b_leverage = None\<rparr>
      (True, initialState defaultConfig))))) = 10
   \<and> tradeSize (tradeConfig (snd (setTradeConfig 1
      \<lparr>cu_tradeSize = Some (JNum 50), cu_leverage = None, cu_margin = None\<rparr>
      (initialState defaultConfig)))) = 50
   \<and> tc_leverage (tradeConfig (snd (snd (settingsPOST 1
      \<lparr>b_demoMode = None, b_margin = None, b_tradeSize = None, b_leverage = Some (JNum 500)\<rparr>
      (True, initialState defaultConfig))))) = 125"
  by (simp add: settingsPOST_tradeSize settingsPOST_leverage)
     (simp add: initialState_def defaultConfig_def setTradeConfig_def Let_def)


end
